theory Spec2Isabelle
  imports Main "HOL-Library.Sublist"
begin

section \<open>Python values and exceptions\<close>

text \<open>
  The client (\<^verbatim>\<open>github/client.py\<close>) navigates decoded JSON payloads with Python's
  dictionary operations. A payload is a \<open>json\<close> value; an object is an association list
  in the order of its keys (a decoded object has each key once). JSON numbers are the
  integers: no function of the client computes with a fractional number.
\<close>

datatype json =
    JNull
  | JBool bool
  | JInt int
  | JStr string
  | JList "json list"
  | JObj "(string \<times> json) list"

text \<open>
  Exceptions are values. \<open>ValueError\<close> carries the message of a \<^verbatim>\<open>raise ValueError(...)\<close>
  of the source; \<open>JSONDecodeError\<close> (raised by \<^verbatim>\<open>response.json()\<close>) and pydantic's
  \<open>ValidationError\<close> are subclasses of \<^verbatim>\<open>ValueError\<close> in Python, which matters for
  \<^verbatim>\<open>except ValueError\<close>; \<open>HTTPError\<close> is \<^verbatim>\<open>httpx.HTTPError\<close>
  (\<^verbatim>\<open>raise_for_status\<close>, a timeout); the last three are what Python raises on a
  payload of the wrong shape.
\<close>

datatype error =
    ValueError string
  | JSONDecodeError
  | ValidationError
  | HTTPError
  | KeyError string
  | TypeError
  | AttributeError

type_synonym 'a result = "error + 'a"

fun is_ValueError :: "error \<Rightarrow> bool" where
  "is_ValueError (ValueError m) = True"
| "is_ValueError JSONDecodeError = True"
| "is_ValueError ValidationError = True"
| "is_ValueError e = False"

definition res_bind :: "'a result \<Rightarrow> ('a \<Rightarrow> 'b result) \<Rightarrow> 'b result" where
  "res_bind r f = (case r of Inl e \<Rightarrow> Inl e | Inr x \<Rightarrow> f x)"

fun traverse :: "('a \<Rightarrow> 'b result) \<Rightarrow> 'a list \<Rightarrow> 'b list result" where
  "traverse f [] = Inr []"
| "traverse f (x # xs) =
     (case f x of Inl e \<Rightarrow> Inl e
      | Inr y \<Rightarrow> (case traverse f xs of Inl e \<Rightarrow> Inl e | Inr ys \<Rightarrow> Inr (y # ys)))"

text \<open>Truth value of a payload in a Python condition (\<^verbatim>\<open>if x\<close>, \<^verbatim>\<open>not x\<close>, \<^verbatim>\<open>x and y\<close>).\<close>

fun truthy :: "json \<Rightarrow> bool" where
  "truthy JNull = False"
| "truthy (JBool b) = b"
| "truthy (JInt n) = (n \<noteq> 0)"
| "truthy (JStr s) = (s \<noteq> [])"
| "truthy (JList xs) = (xs \<noteq> [])"
| "truthy (JObj kvs) = (kvs \<noteq> [])"

text \<open>\<^verbatim>\<open>x[k]\<close> with a string key: \<^verbatim>\<open>KeyError\<close> on a dictionary without the key,
  \<^verbatim>\<open>TypeError\<close> on anything that is not a dictionary.\<close>

fun subscript :: "json \<Rightarrow> string \<Rightarrow> json result" where
  "subscript (JObj kvs) k = (case map_of kvs k of None \<Rightarrow> Inl (KeyError k) | Some v \<Rightarrow> Inr v)"
| "subscript x k = Inl TypeError"

text \<open>\<^verbatim>\<open>x.get(k, d)\<close> and \<^verbatim>\<open>x.get(k)\<close>: only a dictionary has the method.\<close>

fun get_default :: "json \<Rightarrow> string \<Rightarrow> json \<Rightarrow> json result" where
  "get_default (JObj kvs) k d = Inr (case map_of kvs k of None \<Rightarrow> d | Some v \<Rightarrow> v)"
| "get_default x k d = Inl AttributeError"

definition dict_get :: "json \<Rightarrow> string \<Rightarrow> json result" where
  "dict_get x k = get_default x k JNull"

text \<open>The elements a \<^verbatim>\<open>for\<close> loop or a comprehension visits: the items of a list, the
  keys of a dictionary, the characters of a string; anything else is not iterable. (For a
  string the elements are the bytes of its encoding, see the section on strings; each is a
  non-empty string, and every loop of the client raises on the first element of a
  non-empty string whatever it holds.)\<close>

fun iter :: "json \<Rightarrow> json list result" where
  "iter (JList xs) = Inr xs"
| "iter (JObj kvs) = Inr (map (\<lambda>kv. JStr (fst kv)) kvs)"
| "iter (JStr s) = Inr (map (\<lambda>c. JStr [c]) s)"
| "iter x = Inl TypeError"

fun isinstance_dict :: "json \<Rightarrow> bool" where
  "isinstance_dict (JObj kvs) = True"
| "isinstance_dict x = False"

text \<open>\<^verbatim>\<open>a == b\<close> on payloads: Python identifies \<^verbatim>\<open>True\<close> with \<^verbatim>\<open>1\<close> and
  \<^verbatim>\<open>False\<close> with \<^verbatim>\<open>0\<close>; the values the client compares are scalars.\<close>

fun py_eq :: "json \<Rightarrow> json \<Rightarrow> bool" where
  "py_eq (JBool a) (JInt n) = (n = (if a then 1 else 0))"
| "py_eq (JInt n) (JBool a) = (n = (if a then 1 else 0))"
| "py_eq a b = (a = b)"

section \<open>Strings\<close>

text \<open>
  A string is the UTF-8 encoding of a Python \<^verbatim>\<open>str\<close>. Equality, emptiness,
  concatenation, \<^verbatim>\<open>join\<close> and the replacement of the ASCII letter \<^verbatim>\<open>Z\<close> are on
  the encoding what they are on the \<^verbatim>\<open>str\<close>. The three built-ins of the client that
  depend on what a character is, \<^verbatim>\<open>str.lower\<close>, \<^verbatim>\<open>str.isdigit\<close> and \<^verbatim>\<open>int\<close>,
  are not defined here: they follow the Unicode tables of the interpreter and are
  parameters of the model (record \<open>runtime\<close> below), so that what is proved holds for
  Python's own.
\<close>

fun str_nat :: "nat \<Rightarrow> string" where
  "str_nat n =
     (if n < 10 then [''0123456789'' ! n] else str_nat (n div 10) @ [''0123456789'' ! (n mod 10)])"

declare str_nat.simps [simp del]

definition str_int :: "int \<Rightarrow> string" where
  "str_int i = (if i < 0 then CHR ''-'' # str_nat (nat (- i)) else str_nat (nat i))"


text \<open>\<^verbatim>\<open>s.replace("Z", "+00:00")\<close>.\<close>

definition replace_Z :: "string \<Rightarrow> string" where
  "replace_Z s = concat (map (\<lambda>c. if c = CHR ''Z'' then ''+00:00'' else [c]) s)"

section \<open>The adapter instance and the remote backend\<close>

text \<open>
  The attributes of \<^verbatim>\<open>GitHubProjectsClient\<close> (\<^verbatim>\<open>__init__\<close>, lines 33-41). The three
  private attributes lose their leading underscore, which an Isabelle name cannot have:
  \<open>self_project_id\<close> is \<^verbatim>\<open>self._project_id\<close>, and so on; \<^verbatim>\<open>None\<close> is \<open>JNull\<close>.
\<close>

record client =
  token :: string
  owner :: string
  repo :: string
  project_number :: "int option"
  api_url :: string
  rest_api_url :: string
  self_project_id :: json
  self_repo_id :: json
  self_status_field_id :: json

definition init :: "string \<Rightarrow> string \<Rightarrow> string \<Rightarrow> int option \<Rightarrow> client" where
  "init tok own rep pn =
     \<lparr> token = tok, owner = own, repo = rep, project_number = pn,
       api_url = ''https://api.github.com/graphql'',
       rest_api_url = ''https://api.github.com'',
       self_project_id = JNull, self_repo_id = JNull, self_status_field_id = JNull \<rparr>"

text \<open>
  The query documents of the functions modelled here, named after what they ask; the two
  whose text starts with \<^verbatim>\<open>mutation\<close> are the writes.
\<close>

datatype document =
    RepositoryProjectQuery
  | UserProjectQuery
  | OrganizationProjectQuery
  | IssueByNumberQuery
  | NodeQuery
  | AddCommentMutation
  | ProjectFieldsQuery
  | ProjectItemsQuery
  | UpdateProjectV2ItemFieldValueMutation

datatype request = GraphQL document "(string \<times> json) list"

fun is_mutation :: "request \<Rightarrow> bool" where
  "is_mutation (GraphQL AddCommentMutation vars) = True"
| "is_mutation (GraphQL UpdateProjectV2ItemFieldValueMutation vars) = True"
| "is_mutation (GraphQL q vars) = False"

text \<open>
  What one POST comes back with: a failure of the transport or a non-success status
  (\<open>Failed\<close>), a body that is not JSON (\<open>Malformed\<close>), or a decoded body.
\<close>

datatype reply = Failed | Malformed | Body json

text \<open>
  The state of a run is the adapter instance and the requests sent so far, oldest first.
  What lies outside the repository is a parameter: the backend, as the reply to the last
  request of a history of requests (so a reply may depend on every earlier write), and
  five functions of Python's library: \<^verbatim>\<open>datetime.fromisoformat\<close>, \<^verbatim>\<open>repr\<close> (which
  \<^verbatim>\<open>str\<close> and an f-string use for a list or a dictionary), \<^verbatim>\<open>str.lower\<close>,
  \<^verbatim>\<open>str.isdigit\<close>, and \<^verbatim>\<open>int\<close> on a string, which raises \<^verbatim>\<open>ValueError\<close> on a
  string it cannot read as an integer.
\<close>

record world =
  self :: client
  sent :: "request list"

record 'dt runtime =
  backend :: "request list \<Rightarrow> reply"
  fromisoformat :: "string \<Rightarrow> 'dt result"
  repr :: "json \<Rightarrow> string"
  lower :: "string \<Rightarrow> string"
  isdigit :: "string \<Rightarrow> bool"
  py_int :: "string \<Rightarrow> int result"

type_synonym 'a io = "world \<Rightarrow> 'a result \<times> world"

definition io_return :: "'a \<Rightarrow> 'a io" where
  "io_return x w = (Inr x, w)"

definition io_raise :: "error \<Rightarrow> 'a io" where
  "io_raise e w = (Inl e, w)"

definition io_lift :: "'a result \<Rightarrow> 'a io" where
  "io_lift r w = (r, w)"

definition io_bind :: "'a io \<Rightarrow> ('a \<Rightarrow> 'b io) \<Rightarrow> 'b io" where
  "io_bind m f w = (case m w of (Inl e, w') \<Rightarrow> (Inl e, w') | (Inr x, w') \<Rightarrow> f x w')"

text \<open>\<^verbatim>\<open>str(x)\<close>, and \<^verbatim>\<open>{x}\<close> in an f-string.\<close>

fun py_str :: "'dt runtime \<Rightarrow> json \<Rightarrow> string" where
  "py_str rt (JStr s) = s"
| "py_str rt (JInt n) = str_int n"
| "py_str rt JNull = ''None''"
| "py_str rt (JBool b) = (if b then ''True'' else ''False'')"
| "py_str rt x = repr rt x"

text \<open>
  \<^verbatim>\<open>_graphql_request\<close> (lines 43-70). The request is recorded and the reply read:
  \<^verbatim>\<open>raise_for_status\<close>, \<^verbatim>\<open>response.json()\<close>, the test \<^verbatim>\<open>"errors" in data\<close>, and
  \<^verbatim>\<open>data["data"]\<close>. On a body that is not a dictionary the membership test or one of
  the two subscripts with a string key raises \<^verbatim>\<open>TypeError\<close>, whatever the body holds.
\<close>

definition response_data :: "'dt runtime \<Rightarrow> reply \<Rightarrow> json result" where
  "response_data rt response =
     (case response of
        Failed \<Rightarrow> Inl HTTPError
      | Malformed \<Rightarrow> Inl JSONDecodeError
      | Body data \<Rightarrow>
          (case data of
             JObj kvs \<Rightarrow>
               (case map_of kvs ''errors'' of
                  Some errs \<Rightarrow> Inl (ValueError (''GraphQL errors: '' @ py_str rt errs))
                | None \<Rightarrow> subscript data ''data'')
           | _ \<Rightarrow> Inl TypeError))"

definition graphql_request :: "'dt runtime \<Rightarrow> document \<Rightarrow> (string \<times> json) list \<Rightarrow> json io" where
  "graphql_request rt query variables w =
     (let w' = w\<lparr>sent := sent w @ [GraphQL query variables]\<rparr>
      in (response_data rt (backend rt (sent w')), w'))"

section \<open>Project-id resolution\<close>

text \<open>\<^verbatim>\<open>a or b\<close> on optional project numbers: \<^verbatim>\<open>None\<close> and \<^verbatim>\<open>0\<close> are false.\<close>

fun py_or :: "int option \<Rightarrow> int option \<Rightarrow> int option" where
  "py_or None b = b"
| "py_or (Some n) b = (if n = 0 then b else Some n)"

text \<open>
  The three \<^verbatim>\<open>try\<close> blocks of \<^verbatim>\<open>_get_project_id\<close> (lines 139-196) differ in the
  document, the variables and the top-level key only. \<open>project_of\<close> is the condition and
  the subscripts of one block: \<^verbatim>\<open>data.get(scope) and data[scope].get("projectV2")\<close>, then
  \<^verbatim>\<open>data[scope]["projectV2"]["id"]\<close>. \<open>try_scope\<close> is the whole block: the request, the
  assignment to \<^verbatim>\<open>self._project_id\<close>, and \<^verbatim>\<open>except ValueError: pass\<close>, where \<open>None\<close>
  is falling out of the block.
\<close>

definition project_of :: "string \<Rightarrow> json \<Rightarrow> json option result" where
  "project_of scope data =
     res_bind (dict_get data scope) (\<lambda>s.
       if \<not> truthy s then Inr None
       else res_bind (res_bind (subscript data scope) (\<lambda>s. dict_get s ''projectV2'')) (\<lambda>p.
         if \<not> truthy p then Inr None
         else res_bind (subscript data scope) (\<lambda>s.
              res_bind (subscript s ''projectV2'') (\<lambda>p.
              res_bind (subscript p ''id'') (\<lambda>i. Inr (Some i))))))"

definition try_scope ::
  "'dt runtime \<Rightarrow> document \<Rightarrow> (string \<times> json) list \<Rightarrow> string \<Rightarrow> json option io" where
  "try_scope rt query variables scope w =
     (case graphql_request rt query variables w of
        (Inl e, w1) \<Rightarrow> if is_ValueError e then (Inr None, w1) else (Inl e, w1)
      | (Inr data, w1) \<Rightarrow>
          (case project_of scope data of
             Inl e \<Rightarrow> if is_ValueError e then (Inr None, w1) else (Inl e, w1)
           | Inr None \<Rightarrow> (Inr None, w1)
           | Inr (Some pid) \<Rightarrow> (Inr (Some pid), w1\<lparr>self := (self w1)\<lparr>self_project_id := pid\<rparr>\<rparr>)))"

definition not_found_message :: "int \<Rightarrow> client \<Rightarrow> string" where
  "not_found_message pn c =
     ''Project '' @ str_int pn @ '' not found in repository '' @ owner c @ ''/'' @ repo c
       @ '', user '' @ owner c @ '', or organization '' @ owner c"

definition repository_vars :: "client \<Rightarrow> int \<Rightarrow> (string \<times> json) list" where
  "repository_vars c pn = [(''owner'', JStr (owner c)), (''repo'', JStr (repo c)), (''number'', JInt pn)]"

definition owner_vars :: "client \<Rightarrow> int \<Rightarrow> (string \<times> json) list" where
  "owner_vars c pn = [(''owner'', JStr (owner c)), (''number'', JInt pn)]"

text \<open>\<^verbatim>\<open>_get_project_id\<close> (lines 122-201).\<close>

definition get_project_id :: "'dt runtime \<Rightarrow> int option \<Rightarrow> json io" where
  "get_project_id rt project_num w =
     (if truthy (self_project_id (self w)) then (Inr (self_project_id (self w)), w)
      else
        (case py_or project_num (project_number (self w)) of
           None \<Rightarrow> (Inl (ValueError ''Project number not specified''), w)
         | Some pn \<Rightarrow>
             if pn = 0 then (Inl (ValueError ''Project number not specified''), w)
             else
               (case try_scope rt RepositoryProjectQuery (repository_vars (self w) pn) ''repository'' w of
                  (Inl e, w1) \<Rightarrow> (Inl e, w1)
                | (Inr (Some pid), w1) \<Rightarrow> (Inr pid, w1)
                | (Inr None, w1) \<Rightarrow>
                    (case try_scope rt UserProjectQuery (owner_vars (self w1) pn) ''user'' w1 of
                       (Inl e, w2) \<Rightarrow> (Inl e, w2)
                     | (Inr (Some pid), w2) \<Rightarrow> (Inr pid, w2)
                     | (Inr None, w2) \<Rightarrow>
                         (case try_scope rt OrganizationProjectQuery (owner_vars (self w2) pn)
                                 ''organization'' w2 of
                            (Inl e, w3) \<Rightarrow> (Inl e, w3)
                          | (Inr (Some pid), w3) \<Rightarrow> (Inr pid, w3)
                          | (Inr None, w3) \<Rightarrow>
                              (Inl (ValueError (not_found_message pn (self w3))), w3))))))"

section \<open>The canonical records\<close>

text \<open>
  \<^verbatim>\<open>models/ticket.py\<close> and \<^verbatim>\<open>models/comment.py\<close>. The field \<^verbatim>\<open>id\<close> is
  \<open>ticket_id\<close> (\<open>id\<close> is the identity function of HOL), and the fields of a comment carry
  the prefix \<open>comment_\<close> where a ticket has a field of the same name. A \<^verbatim>\<open>datetime\<close> is
  whatever \<open>fromisoformat\<close> of the runtime returns.
\<close>

record 'dt ticket =
  ticket_id :: string
  number :: "int option"
  title :: string
  body :: "string option"
  status :: string
  labels :: "string list"
  assignees :: "string list"
  milestone :: "string option"
  branch :: "string option"
  pull_requests :: "string list"
  subtasks :: "string list"
  created_at :: "'dt option"
  updated_at :: "'dt option"
  url :: "string option"
  metadata :: "(string \<times> json) list"

record 'dt comment =
  comment_id :: string
  comment_ticket_id :: string
  author :: string
  comment_body :: string
  comment_created_at :: "'dt option"
  comment_updated_at :: "'dt option"
  comment_url :: "string option"

text \<open>
  The models are pydantic models: the constructor checks every argument against the
  declared type of its field and raises \<open>ValidationError\<close> otherwise. The fields have the
  JSON types of GitHub's schema; pydantic's conversions of a value of another type
  (a numeric string for an \<^verbatim>\<open>int\<close>) are not modelled, such a value is rejected.
  An assignment to an attribute of an existing model is not checked.
\<close>

fun validate_str :: "json \<Rightarrow> string result" where
  "validate_str (JStr s) = Inr s"
| "validate_str x = Inl ValidationError"

fun validate_opt_str :: "json \<Rightarrow> string option result" where
  "validate_opt_str JNull = Inr None"
| "validate_opt_str (JStr s) = Inr (Some s)"
| "validate_opt_str x = Inl ValidationError"

fun validate_opt_int :: "json \<Rightarrow> int option result" where
  "validate_opt_int JNull = Inr None"
| "validate_opt_int (JInt n) = Inr (Some n)"
| "validate_opt_int x = Inl ValidationError"

definition Ticket ::
  "string \<Rightarrow> json \<Rightarrow> json \<Rightarrow> json \<Rightarrow> json \<Rightarrow> json list \<Rightarrow> json list \<Rightarrow> json \<Rightarrow>
   'dt option \<Rightarrow> 'dt option \<Rightarrow> json \<Rightarrow> (string \<times> json) list \<Rightarrow> 'dt ticket result" where
  "Ticket i num ttl bdy st lbls asgs ms created updated u meta =
     res_bind (validate_opt_int num) (\<lambda>num'.
     res_bind (validate_str ttl) (\<lambda>ttl'.
     res_bind (validate_opt_str bdy) (\<lambda>bdy'.
     res_bind (validate_str st) (\<lambda>st'.
     res_bind (traverse validate_str lbls) (\<lambda>lbls'.
     res_bind (traverse validate_str asgs) (\<lambda>asgs'.
     res_bind (validate_opt_str ms) (\<lambda>ms'.
     res_bind (validate_opt_str u) (\<lambda>u'.
       Inr \<lparr> ticket_id = i, number = num', title = ttl', body = bdy', status = st',
             labels = lbls', assignees = asgs', milestone = ms', branch = None,
             pull_requests = [], subtasks = [], created_at = created, updated_at = updated,
             url = u', metadata = meta \<rparr>))))))))"

definition Comment ::
  "json \<Rightarrow> string \<Rightarrow> json \<Rightarrow> json \<Rightarrow> 'dt option \<Rightarrow> 'dt option \<Rightarrow> json \<Rightarrow> 'dt comment result" where
  "Comment i tid auth bdy created updated u =
     res_bind (validate_str i) (\<lambda>i'.
     res_bind (validate_str auth) (\<lambda>auth'.
     res_bind (validate_str bdy) (\<lambda>bdy'.
     res_bind (validate_opt_str u) (\<lambda>u'.
       Inr \<lparr> comment_id = i', comment_ticket_id = tid, author = auth', comment_body = bdy',
             comment_created_at = created, comment_updated_at = updated, comment_url = u' \<rparr>))))"

section \<open>The response normalizer\<close>

text \<open>
  \<^verbatim>\<open>_parse_issue_to_ticket\<close> (lines 203-262), block by block. \<open>parse_names\<close> is the block
  for the labels (lines 216-220, \<open>field = ''labels''\<close>, \<open>key = ''name''\<close>) and the one for
  the assignees (lines 223-227, \<open>''assignees''\<close>, \<open>''login''\<close>), which are the same text.
\<close>

definition parse_names :: "string \<Rightarrow> string \<Rightarrow> json \<Rightarrow> json list result" where
  "parse_names field key issue =
     res_bind (get_default issue field (JList [])) (\<lambda>data.
     res_bind (if isinstance_dict data
               then res_bind (get_default data ''nodes'' (JList [])) iter
               else iter data) (\<lambda>items.
       traverse (\<lambda>item. subscript item key) items))"

definition parse_milestone :: "json \<Rightarrow> json result" where
  "parse_milestone issue =
     res_bind (dict_get issue ''milestone'') (\<lambda>m.
       if truthy m
       then res_bind (subscript issue ''milestone'') (\<lambda>m. subscript m ''title'')
       else Inr JNull)"

text \<open>The loop of lines 237-239: it has no \<^verbatim>\<open>break\<close>, so it visits every node.\<close>

fun scan_field_values :: "json \<Rightarrow> json list \<Rightarrow> json result" where
  "scan_field_values st [] = Inr st"
| "scan_field_values st (field # nodes) =
     (case dict_get field ''__typename'' of
        Inl e \<Rightarrow> Inl e
      | Inr t \<Rightarrow>
          if py_eq t (JStr ''ProjectV2ItemFieldSingleSelectValue'')
          then (case get_default field ''name'' st of
                  Inl e \<Rightarrow> Inl e
                | Inr st' \<Rightarrow> scan_field_values st' nodes)
          else scan_field_values st nodes)"

definition TicketStatus_TODO :: string where
  "TicketStatus_TODO = ''Todo''"

definition parse_status :: "json \<Rightarrow> json result" where
  "parse_status project_item =
     (if \<not> truthy project_item then Inr (JStr TicketStatus_TODO)
      else res_bind (dict_get project_item ''fieldValues'') (\<lambda>fv.
        if \<not> truthy fv then Inr (JStr TicketStatus_TODO)
        else res_bind (subscript project_item ''fieldValues'') (\<lambda>fv.
             res_bind (get_default fv ''nodes'' (JList [])) (\<lambda>nodes.
             res_bind (iter nodes) (\<lambda>nodes.
               scan_field_values (JStr TicketStatus_TODO) nodes)))))"

text \<open>The conditional expressions of lines 250-259; \<^verbatim>\<open>replace\<close> is a method of a
  string only.\<close>

definition parse_time :: "'dt runtime \<Rightarrow> json \<Rightarrow> string \<Rightarrow> 'dt option result" where
  "parse_time rt issue key =
     res_bind (dict_get issue key) (\<lambda>present.
       if truthy present
       then res_bind (subscript issue key) (\<lambda>v.
              case v of
                JStr s \<Rightarrow> res_bind (fromisoformat rt (replace_Z s)) (\<lambda>d. Inr (Some d))
              | _ \<Rightarrow> Inl AttributeError)
       else Inr None)"

text \<open>\<^verbatim>\<open>project_item\<close> is \<open>JNull\<close> where the source passes \<^verbatim>\<open>None\<close> or nothing.\<close>

definition parse_issue_to_ticket :: "'dt runtime \<Rightarrow> json \<Rightarrow> json \<Rightarrow> 'dt ticket result" where
  "parse_issue_to_ticket rt issue project_item =
     res_bind (parse_names ''labels'' ''name'' issue) (\<lambda>lbls.
     res_bind (parse_names ''assignees'' ''login'' issue) (\<lambda>asgs.
     res_bind (parse_milestone issue) (\<lambda>ms.
     res_bind (parse_status project_item) (\<lambda>st.
     res_bind (subscript issue ''id'') (\<lambda>i.
     res_bind (dict_get issue ''number'') (\<lambda>num.
     res_bind (subscript issue ''title'') (\<lambda>ttl.
     res_bind (dict_get issue ''body'') (\<lambda>bdy.
     res_bind (parse_time rt issue ''createdAt'') (\<lambda>created.
     res_bind (parse_time rt issue ''updatedAt'') (\<lambda>updated.
     res_bind (dict_get issue ''url'') (\<lambda>u.
     res_bind (subscript issue ''id'') (\<lambda>node_id.
       Ticket (py_str rt i) num ttl bdy st lbls asgs ms created updated u
         [(''github_node_id'', node_id)]))))))))))))"

section \<open>Fetching a ticket and commenting\<close>

text \<open>
  \<^verbatim>\<open>get_ticket\<close> (lines 370-444). On the first path \<^verbatim>\<open>int(ticket_id)\<close> (line 405)
  is evaluated with the other variables, before \<^verbatim>\<open>_graphql_request\<close> is called: when
  it raises, no request has been sent.
\<close>

definition get_ticket :: "'dt runtime \<Rightarrow> string \<Rightarrow> 'dt ticket io" where
  "get_ticket rt tid w =
     io_bind
       (if isdigit rt tid
        then io_bind (io_lift (py_int rt tid)) (\<lambda>n.
             io_bind
               (graphql_request rt IssueByNumberQuery
                  [(''owner'', JStr (owner (self w))), (''repo'', JStr (repo (self w))),
                   (''number'', JInt n)])
               (\<lambda>data. io_lift (res_bind (subscript data ''repository'') (\<lambda>r. subscript r ''issue''))))
        else io_bind
               (graphql_request rt NodeQuery [(''id'', JStr tid)])
               (\<lambda>data. io_lift (subscript data ''node'')))
       (\<lambda>issue.
          if \<not> truthy issue then io_raise (ValueError (''Ticket '' @ tid @ '' not found''))
          else io_lift (parse_issue_to_ticket rt issue JNull))
       w"

text \<open>\<^verbatim>\<open>add_comment\<close> (lines 503-548).\<close>

definition parse_comment :: "'dt runtime \<Rightarrow> string \<Rightarrow> json \<Rightarrow> 'dt comment result" where
  "parse_comment rt tid comment_data =
     res_bind (subscript comment_data ''id'') (\<lambda>i.
     res_bind (res_bind (dict_get comment_data ''author'') (\<lambda>a.
                 if truthy a
                 then res_bind (subscript comment_data ''author'') (\<lambda>a. subscript a ''login'')
                 else Inr (JStr ''ghost''))) (\<lambda>auth.
     res_bind (subscript comment_data ''body'') (\<lambda>bdy.
     res_bind (parse_time rt comment_data ''createdAt'') (\<lambda>created.
     res_bind (parse_time rt comment_data ''updatedAt'') (\<lambda>updated.
     res_bind (dict_get comment_data ''url'') (\<lambda>u.
       Comment i tid auth bdy created updated u))))))"

definition add_comment :: "'dt runtime \<Rightarrow> string \<Rightarrow> string \<Rightarrow> 'dt comment io" where
  "add_comment rt tid text =
     io_bind (get_ticket rt tid) (\<lambda>ticket.
     io_bind (graphql_request rt AddCommentMutation
                [(''subjectId'', JStr (ticket_id ticket)), (''body'', JStr text)]) (\<lambda>data.
       io_lift
         (res_bind (subscript data ''addComment'') (\<lambda>a.
          res_bind (subscript a ''commentEdge'') (\<lambda>e.
          res_bind (subscript e ''node'') (\<lambda>comment_data.
            parse_comment rt (ticket_id ticket) comment_data))))))"

section \<open>Status field, project item and status update\<close>

text \<open>
  The options dictionary of \<^verbatim>\<open>_get_status_field_id\<close> is an association list in
  insertion order, as a Python \<^verbatim>\<open>dict\<close> is. \<open>dict_set\<close> is \<^verbatim>\<open>d[k] = v\<close>: an equal key
  keeps its place and takes the new value. A list or a dictionary cannot be a key.
\<close>

fun dict_set :: "json \<Rightarrow> json \<Rightarrow> (json \<times> json) list \<Rightarrow> (json \<times> json) list" where
  "dict_set k v [] = [(k, v)]"
| "dict_set k v ((k', v') # d) =
     (if py_eq k' k then (k', v) # d else (k', v') # dict_set k v d)"

fun hashable :: "json \<Rightarrow> bool" where
  "hashable (JList xs) = False"
| "hashable (JObj kvs) = False"
| "hashable x = True"

text \<open>The loop of lines 649-652; \<open>JNull\<close> is \<^verbatim>\<open>status_field = None\<close>.\<close>

fun find_status_field :: "json list \<Rightarrow> json result" where
  "find_status_field [] = Inr JNull"
| "find_status_field (field # rest) =
     (if truthy field
      then (case dict_get field ''name'' of
              Inl e \<Rightarrow> Inl e
            | Inr n \<Rightarrow> if py_eq n (JStr ''Status'') then Inr field else find_status_field rest)
      else find_status_field rest)"

text \<open>The dictionary comprehension of line 658: key, then value, then the insertion.\<close>

fun build_options :: "json list \<Rightarrow> (json \<times> json) list \<Rightarrow> (json \<times> json) list result" where
  "build_options [] d = Inr d"
| "build_options (opt # opts) d =
     (case subscript opt ''name'' of
        Inl e \<Rightarrow> Inl e
      | Inr k \<Rightarrow>
          (case subscript opt ''id'' of
             Inl e \<Rightarrow> Inl e
           | Inr v \<Rightarrow> if hashable k then build_options opts (dict_set k v d) else Inl TypeError))"

definition status_field_of :: "json \<Rightarrow> (json \<times> (json \<times> json) list) result" where
  "status_field_of data =
     res_bind (subscript data ''node'') (\<lambda>n.
     res_bind (subscript n ''fields'') (\<lambda>f.
     res_bind (subscript f ''nodes'') (\<lambda>nodes.
     res_bind (iter nodes) (\<lambda>nodes.
     res_bind (find_status_field nodes) (\<lambda>status_field.
       if \<not> truthy status_field then Inl (ValueError ''Status field not found in project'')
       else res_bind (get_default status_field ''options'' (JList [])) (\<lambda>opts.
            res_bind (iter opts) (\<lambda>opts.
            res_bind (build_options opts []) (\<lambda>options.
            res_bind (subscript status_field ''id'') (\<lambda>field_id.
              Inr (field_id, options))))))))))"

text \<open>\<^verbatim>\<open>_get_status_field_id\<close> (lines 615-660).\<close>

definition get_status_field_id ::
  "'dt runtime \<Rightarrow> int option \<Rightarrow> (json \<times> (json \<times> json) list) io" where
  "get_status_field_id rt project_num =
     io_bind (get_project_id rt project_num) (\<lambda>project_id.
     io_bind (graphql_request rt ProjectFieldsQuery [(''projectId'', project_id)]) (\<lambda>data.
       io_lift (status_field_of data)))"


text \<open>An optional number in an f-string.\<close>

fun str_number :: "int option \<Rightarrow> string" where
  "str_number None = ''None''"
| "str_number (Some n) = str_int n"


text \<open>
  The first loop of \<^verbatim>\<open>update_status\<close> (lines 737-741): \<open>JNull\<close> is
  \<^verbatim>\<open>option_id = None\<close>; \<^verbatim>\<open>lower\<close> is a method of a string only.
\<close>

fun find_option :: "'dt runtime \<Rightarrow> (json \<times> json) list \<Rightarrow> string \<Rightarrow> json result" where
  "find_option rt [] st = Inr JNull"
| "find_option rt ((opt_name, opt_id) # rest) st =
     (case opt_name of
        JStr n \<Rightarrow> if lower rt n = lower rt st then Inr opt_id else find_option rt rest st
      | _ \<Rightarrow> Inl AttributeError)"


text \<open>
  The second loop (lines 784-787): the name of the first option whose id equals the
  matched one. The name found is a string: it stands at or before the option the first
  loop matched, and the first loop has called \<^verbatim>\<open>lower\<close> on every name up to that one
  (lemma \<open>option_name_is_str\<close>); the ticket is left as it is in the case that cannot arise.
\<close>

fun option_name :: "(json \<times> json) list \<Rightarrow> json \<Rightarrow> json option" where
  "option_name [] option_id = None"
| "option_name ((opt_name, opt_id) # rest) option_id =
     (if py_eq opt_id option_id then Some opt_name else option_name rest option_id)"




section \<open>Links and relations\<close>

text \<open>\<^verbatim>\<open>add_branch\<close> (lines 791-800) and \<^verbatim>\<open>add_pull_request\<close> (lines 802-809).\<close>

definition add_branch :: "'dt runtime \<Rightarrow> string \<Rightarrow> string \<Rightarrow> 'dt ticket io" where
  "add_branch rt tid branch_name =
     io_bind (get_ticket rt tid) (\<lambda>ticket.
       io_return (ticket\<lparr>branch := Some branch_name\<rparr>))"

definition add_pull_request :: "'dt runtime \<Rightarrow> string \<Rightarrow> string \<Rightarrow> 'dt ticket io" where
  "add_pull_request rt tid pr_url =
     io_bind (get_ticket rt tid) (\<lambda>ticket.
       io_return (ticket\<lparr>pull_requests := pull_requests ticket @ [pr_url]\<rparr>))"

text \<open>\<^verbatim>\<open>add_subtask\<close> (lines 811-826).\<close>

definition add_subtask :: "'dt runtime \<Rightarrow> string \<Rightarrow> string \<Rightarrow> 'dt ticket io" where
  "add_subtask rt parent_id subtask_id =
     io_bind (get_ticket rt parent_id) (\<lambda>parent.
     io_bind (get_ticket rt subtask_id) (\<lambda>subtask.
     io_bind (add_comment rt parent_id
                (''Subtask: #'' @ str_number (number subtask) @ '' '' @ title subtask)) (\<lambda>c.
       io_return (parent\<lparr>subtasks := subtasks parent @ [subtask_id]\<rparr>))))"

text \<open>\<^verbatim>\<open>add_parent\<close> (lines 1039-1062), \<^verbatim>\<open>add_blocked_by\<close> (lines 1064-1087) and
  \<^verbatim>\<open>add_blocking\<close> (lines 1089-1112).\<close>

definition add_parent :: "'dt runtime \<Rightarrow> string \<Rightarrow> string \<Rightarrow> 'dt ticket io" where
  "add_parent rt tid parent_id =
     io_bind (get_ticket rt tid) (\<lambda>child.
     io_bind (get_ticket rt parent_id) (\<lambda>parent.
     io_bind (add_comment rt tid
                (''Parent: #'' @ str_number (number parent) @ '' '' @ title parent)) (\<lambda>c.
       get_ticket rt tid)))"

definition add_blocked_by :: "'dt runtime \<Rightarrow> string \<Rightarrow> string \<Rightarrow> 'dt ticket io" where
  "add_blocked_by rt tid blocking_ticket_id =
     io_bind (get_ticket rt tid) (\<lambda>blocked.
     io_bind (get_ticket rt blocking_ticket_id) (\<lambda>blocker.
     io_bind (add_comment rt tid
                (''Blocked by: #'' @ str_number (number blocker) @ '' '' @ title blocker)) (\<lambda>c.
       get_ticket rt tid)))"

definition add_blocking :: "'dt runtime \<Rightarrow> string \<Rightarrow> string \<Rightarrow> 'dt ticket io" where
  "add_blocking rt tid blocked_ticket_id =
     io_bind (get_ticket rt tid) (\<lambda>blocker.
     io_bind (get_ticket rt blocked_ticket_id) (\<lambda>blocked.
     io_bind (add_comment rt tid
                (''Blocking: #'' @ str_number (number blocked) @ '' '' @ title blocked)) (\<lambda>c.
       get_ticket rt tid)))"

section \<open>Notions used in the statements\<close>

text \<open>
  What one scope of \<^verbatim>\<open>_get_project_id\<close> makes of a reply: the reading of the reply by
  \<^verbatim>\<open>_graphql_request\<close>, the condition of the \<^verbatim>\<open>try\<close> block, and
  \<^verbatim>\<open>except ValueError: pass\<close>. \<open>Inr None\<close> is the scope reporting no project.
\<close>

definition scope_outcome :: "'dt runtime \<Rightarrow> string \<Rightarrow> reply \<Rightarrow> json option result" where
  "scope_outcome rt scope response =
     (case res_bind (response_data rt response) (project_of scope) of
        Inl e \<Rightarrow> if is_ValueError e then Inr None else Inl e
      | Inr found \<Rightarrow> Inr found)"

text \<open>The three lookups of a project number, in the order of the source.\<close>

definition scope_requests :: "client \<Rightarrow> int \<Rightarrow> request list" where
  "scope_requests c n =
     [GraphQL RepositoryProjectQuery
        [(''owner'', JStr (owner c)), (''repo'', JStr (repo c)), (''number'', JInt n)],
      GraphQL UserProjectQuery [(''owner'', JStr (owner c)), (''number'', JInt n)],
      GraphQL OrganizationProjectQuery [(''owner'', JStr (owner c)), (''number'', JInt n)]]"

text \<open>The requests of \<^verbatim>\<open>get_ticket\<close>: one, or none when \<^verbatim>\<open>int\<close> raises.\<close>

definition ticket_requests :: "'dt runtime \<Rightarrow> client \<Rightarrow> string \<Rightarrow> request list" where
  "ticket_requests rt c tid =
     (if isdigit rt tid
      then (case py_int rt tid of
              Inl e \<Rightarrow> []
            | Inr n \<Rightarrow>
                [GraphQL IssueByNumberQuery
                   [(''owner'', JStr (owner c)), (''repo'', JStr (repo c)), (''number'', JInt n)]])
      else [GraphQL NodeQuery [(''id'', JStr tid)]])"

text \<open>
  \<open>queries_only w w'\<close>: from \<open>w\<close> to \<open>w'\<close> requests were sent, none of them a mutation.
  \<open>reads_from w w'\<close>: moreover the instance differs in \<^verbatim>\<open>_project_id\<close> at most.
\<close>

definition queries_only :: "world \<Rightarrow> world \<Rightarrow> bool" where
  "queries_only w w' = (\<exists>qs. sent w' = sent w @ qs \<and> list_all (\<lambda>q. \<not> is_mutation q) qs)"

definition reads_from :: "world \<Rightarrow> world \<Rightarrow> bool" where
  "reads_from w w' = (queries_only w w' \<and> (\<exists>p. self w' = (self w)\<lparr>self_project_id := p\<rparr>))"

text \<open>A field value of a project item whose reported type is the single-select value.\<close>

fun single_select :: "json \<Rightarrow> bool" where
  "single_select (JObj kvs) =
     (map_of kvs ''__typename'' = Some (JStr ''ProjectV2ItemFieldSingleSelectValue''))"
| "single_select x = False"

text \<open>The sentence that a relation writes into its comment: the label, then the number
  and the title of the other ticket.\<close>

definition sentence :: "string \<Rightarrow> 'dt ticket \<Rightarrow> string" where
  "sentence label other = label @ '': #'' @ str_number (number other) @ '' '' @ title other"

section \<open>A concrete backend\<close>

text \<open>
  A backend for the worked instances. Project 1 exists under the organization scope only:
  the repository and the user lookups come back with an error list. Its Status field has
  the options Todo, In Progress and Done; issue 10 is an item of the project, issue 11 is
  not; no other issue exists. A comment changes the \<^verbatim>\<open>updatedAt\<close> of issue 10, so a
  fetch after a comment differs from a fetch before it.
\<close>

text \<open>
  \<^verbatim>\<open>str.lower\<close>, \<^verbatim>\<open>str.isdigit\<close> and \<^verbatim>\<open>int\<close> as far as the worked instances
  need them: on ASCII text, and on the superscript digits U+00B2, U+00B3 and U+00B9 (in
  UTF-8 the byte \<open>0xC2\<close> followed by \<open>0xB2\<close>, \<open>0xB3\<close> or \<open>0xB9\<close>), which
  \<^verbatim>\<open>str.isdigit\<close> accepts, \<^verbatim>\<open>str.lower\<close> leaves as they are and \<^verbatim>\<open>int\<close> refuses
  with \<^verbatim>\<open>invalid literal for int() with base 10\<close>.
\<close>

definition demo_lower_char :: "char \<Rightarrow> char" where
  "demo_lower_char c =
     (case map_of (zip ''ABCDEFGHIJKLMNOPQRSTUVWXYZ'' ''abcdefghijklmnopqrstuvwxyz'') c of
        Some l \<Rightarrow> l
      | None \<Rightarrow> c)"

definition demo_lower :: "string \<Rightarrow> string" where
  "demo_lower s = map demo_lower_char s"

definition ascii_digit :: "char \<Rightarrow> bool" where
  "ascii_digit c = (c \<in> set ''0123456789'')"

fun digits_only :: "string \<Rightarrow> bool" where
  "digits_only [] = True"
| "digits_only [c] = ascii_digit c"
| "digits_only (c # d # cs) =
     (if ascii_digit c then digits_only (d # cs)
      else c = CHR 0xC2 \<and> d \<in> set [CHR 0xB2, CHR 0xB3, CHR 0xB9] \<and> digits_only cs)"

definition demo_isdigit :: "string \<Rightarrow> bool" where
  "demo_isdigit s = (s \<noteq> [] \<and> digits_only s)"

definition digit_value :: "char \<Rightarrow> int" where
  "digit_value c = int (of_char c) - 48"

definition demo_int :: "string \<Rightarrow> int result" where
  "demo_int s =
     (if s \<noteq> [] \<and> list_all ascii_digit s
      then Inr (foldl (\<lambda>n c. 10 * n + digit_value c) 0 s)
      else Inl (ValueError (''invalid literal for int() with base 10: ''
                  @ [CHR 0x27] @ s @ [CHR 0x27])))"

fun is_comment :: "request \<Rightarrow> bool" where
  "is_comment (GraphQL AddCommentMutation vars) = True"
| "is_comment r = False"

definition demo_issue :: "string \<Rightarrow> int \<Rightarrow> string \<Rightarrow> string \<Rightarrow> json" where
  "demo_issue node_id num ttl updated =
     JObj [(''id'', JStr node_id), (''number'', JInt num), (''title'', JStr ttl),
           (''updatedAt'', JStr updated),
           (''labels'', JObj [(''nodes'', JList [JObj [(''name'', JStr ''bug'')]])]),
           (''assignees'', JObj [(''nodes'', JList [])])]"

definition demo_issue_10 :: "request list \<Rightarrow> json" where
  "demo_issue_10 history =
     demo_issue ''I_10'' 10 ''Fix crash''
       (if list_ex is_comment history then ''2024-05-02T09:30:00Z'' else ''2024-05-01T12:00:00Z'')"

definition demo_backend :: "request list \<Rightarrow> reply" where
  "demo_backend history =
     (case last history of
        GraphQL q vars \<Rightarrow>
          (case q of
             RepositoryProjectQuery \<Rightarrow>
               Body (JObj [(''data'', JObj [(''repository'', JObj [(''projectV2'', JNull)])]),
                           (''errors'', JList [JObj [(''type'', JStr ''NOT_FOUND'')]])])
           | UserProjectQuery \<Rightarrow>
               Body (JObj [(''data'', JObj [(''user'', JNull)]),
                           (''errors'', JList [JObj [(''type'', JStr ''NOT_FOUND'')]])])
           | OrganizationProjectQuery \<Rightarrow>
               Body (JObj [(''data'', JObj [(''organization'',
                       JObj [(''projectV2'', JObj [(''id'', JStr ''PVT_1'')])])])])
           | IssueByNumberQuery \<Rightarrow>
               Body (JObj [(''data'', JObj [(''repository'', JObj [(''issue'',
                       (if map_of vars ''number'' = Some (JInt 10) then demo_issue_10 history
                        else if map_of vars ''number'' = Some (JInt 11)
                        then demo_issue ''I_11'' 11 ''Add tests'' ''2024-05-01T08:00:00Z''
                        else JNull))])])])
           | NodeQuery \<Rightarrow>
               Body (JObj [(''data'', JObj [(''node'',
                       (if map_of vars ''id'' = Some (JStr ''I_10'') then demo_issue_10 history
                        else JNull))])])
           | AddCommentMutation \<Rightarrow>
               Body (JObj [(''data'', JObj [(''addComment'', JObj [(''commentEdge'', JObj [(''node'',
                       JObj [(''id'', JStr ''IC_1''),
                             (''body'', (case map_of vars ''body'' of Some b \<Rightarrow> b | None \<Rightarrow> JNull)),
                             (''author'', JObj [(''login'', JStr ''octocat'')])])])])])])
           | ProjectFieldsQuery \<Rightarrow>
               Body (JObj [(''data'', JObj [(''node'', JObj [(''fields'', JObj [(''nodes'', JList
                       [JObj [],
                        JObj [(''id'', JStr ''F_1''), (''name'', JStr ''Status''),
                              (''options'', JList
                                 [JObj [(''id'', JStr ''o1''), (''name'', JStr ''Todo'')],
                                  JObj [(''id'', JStr ''o2''), (''name'', JStr ''In Progress'')],
                                  JObj [(''id'', JStr ''o3''), (''name'', JStr ''Done'')]])]])])])])])
           | ProjectItemsQuery \<Rightarrow>
               Body (JObj [(''data'', JObj [(''node'', JObj [(''items'', JObj [(''nodes'', JList
                       [JObj [(''id'', JStr ''PVTI_1''),
                              (''content'', JObj [(''id'', JStr ''I_10''), (''number'', JInt 10)])]])])])])])
           | UpdateProjectV2ItemFieldValueMutation \<Rightarrow>
               Body (JObj [(''data'', JObj [(''updateProjectV2ItemFieldValue'',
                       JObj [(''projectV2Item'', JObj [(''id'', JStr ''PVTI_1'')])])])])))"

definition demo_runtime :: "string runtime" where
  "demo_runtime =
     \<lparr> backend = demo_backend, fromisoformat = Inr, repr = (\<lambda>x. ''[...]''),
       lower = demo_lower, isdigit = demo_isdigit, py_int = demo_int \<rparr>"

text \<open>A fresh instance for \<^verbatim>\<open>octo-org/demo\<close> with default project 1, and the same
  instance once the project id has been resolved.\<close>

definition demo_world :: world where
  "demo_world = \<lparr> self = init ''token'' ''octo-org'' ''demo'' (Some 1), sent = [] \<rparr>"

definition demo_resolved :: world where
  "demo_resolved =
     \<lparr> self = (init ''token'' ''octo-org'' ''demo'' (Some 1))\<lparr>self_project_id := JStr ''PVT_1''\<rparr>,
       sent = scope_requests (init ''token'' ''octo-org'' ''demo'' (Some 1)) 1 \<rparr>"

text \<open>
  The field values of a project item with two single-select values, a text value between
  them and a value of a type the query does not select; and the ticket that a fetch of
  issue 10 gives, up to its \<^verbatim>\<open>updatedAt\<close>.
\<close>

definition demo_field_values :: "json list" where
  "demo_field_values =
     [JObj [(''__typename'', JStr ''ProjectV2ItemFieldSingleSelectValue''),
            (''name'', JStr ''In Progress'')],
      JObj [(''__typename'', JStr ''ProjectV2ItemFieldTextValue''), (''text'', JStr ''notes'')],
      JObj [(''__typename'', JStr ''ProjectV2ItemFieldSingleSelectValue''),
            (''name'', JStr ''Done'')],
      JObj []]"

definition demo_item :: "(string \<times> json) list" where
  "demo_item =
     [(''id'', JStr ''PVTI_1''), (''fieldValues'', JObj [(''nodes'', JList demo_field_values)])]"

definition demo_ticket_10 :: "string \<Rightarrow> string ticket" where
  "demo_ticket_10 updated =
     \<lparr> ticket_id = ''I_10'', number = Some 10, title = ''Fix crash'', body = None,
       status = ''Todo'', labels = [''bug''], assignees = [], milestone = None, branch = None,
       pull_requests = [], subtasks = [], created_at = None, updated_at = Some updated,
       url = None, metadata = [(''github_node_id'', JStr ''I_10'')] \<rparr>"

text \<open>The options of the Status field as \<^verbatim>\<open>_get_status_field_id\<close> returns them, and the
  instance with the project id resolved after further requests.\<close>

definition demo_options :: "(json \<times> json) list" where
  "demo_options =
     [(JStr ''Todo'', JStr ''o1''), (JStr ''In Progress'', JStr ''o2''), (JStr ''Done'', JStr ''o3'')]"

definition demo_after :: "request list \<Rightarrow> world" where
  "demo_after qs = demo_resolved\<lparr>sent := sent demo_resolved @ qs\<rparr>"

text \<open>The ticket of issue 11, the fresh instance after some requests, the requests of the
  relational instances and the comment the backend reports back.\<close>

definition demo_ticket_11 :: "string ticket" where
  "demo_ticket_11 =
     \<lparr> ticket_id = ''I_11'', number = Some 11, title = ''Add tests'', body = None,
       status = ''Todo'', labels = [''bug''], assignees = [], milestone = None, branch = None,
       pull_requests = [], subtasks = [], created_at = None,
       updated_at = Some ''2024-05-01T08:00:00+00:00'',
       url = None, metadata = [(''github_node_id'', JStr ''I_11'')] \<rparr>"

definition demo_sent :: "request list \<Rightarrow> world" where
  "demo_sent qs = demo_world\<lparr>sent := qs\<rparr>"

definition demo_issue_query :: "int \<Rightarrow> request" where
  "demo_issue_query n =
     GraphQL IssueByNumberQuery
       [(''owner'', JStr ''octo-org''), (''repo'', JStr ''demo''), (''number'', JInt n)]"

definition comment_mutation :: "string \<Rightarrow> string \<Rightarrow> request" where
  "comment_mutation subject text =
     GraphQL AddCommentMutation [(''subjectId'', JStr subject), (''body'', JStr text)]"

definition demo_comment :: "string \<Rightarrow> string comment" where
  "demo_comment msg =
     \<lparr> comment_id = ''IC_1'', comment_ticket_id = ''I_10'', author = ''octocat'',
       comment_body = msg, comment_created_at = None, comment_updated_at = None,
       comment_url = None \<rparr>"

section \<open>Properties\<close>

subsection \<open>Sequencing and equality\<close>

lemma py_eq_JStr [simp]: "py_eq a (JStr s) = (a = JStr s)"
  by (cases a) auto

lemma py_eq_JStr_left [simp]: "py_eq (JStr s) b = (JStr s = b)"
  by (cases b) auto

lemma py_eq_refl [simp]: "py_eq a a"
  by (cases a) auto

lemma io_bind_Inr: "m w = (Inr x, w') \<Longrightarrow> io_bind m f w = f x w'"
  by (simp add: io_bind_def)

lemma io_bind_Inl: "m w = (Inl e, w') \<Longrightarrow> io_bind m f w = (Inl e, w')"
  by (simp add: io_bind_def)

lemma io_bind_result:
  "io_bind m f w = (r, w2) \<Longrightarrow>
     (\<exists>e. m w = (Inl e, w2) \<and> r = Inl e) \<or> (\<exists>x w1. m w = (Inr x, w1) \<and> f x w1 = (r, w2))"
  by (auto simp: io_bind_def split: prod.splits sum.splits)

subsection \<open>What a call sends\<close>

lemma queries_only_refl [simp]: "queries_only w w"
  by (simp add: queries_only_def)

lemma queries_only_trans: "queries_only w w1 \<Longrightarrow> queries_only w1 w2 \<Longrightarrow> queries_only w w2"
  by (auto simp: queries_only_def)

lemma queries_only_step:
  "\<not> is_mutation q \<Longrightarrow> queries_only w (w\<lparr>sent := sent w @ [q]\<rparr>)"
  by (simp add: queries_only_def)

lemma queries_only_self [simp]: "queries_only w (w'\<lparr>self := c\<rparr>) = queries_only w w'"
  by (simp add: queries_only_def)

lemma ticket_requests_read [simp]:
  "list_all (\<lambda>q. \<not> is_mutation q) (ticket_requests rt c tid)"
  by (simp add: ticket_requests_def split: sum.splits)

lemma ticket_requests_no_mutation [simp]: "filter is_mutation (ticket_requests rt c tid) = []"
  by (simp add: ticket_requests_def split: sum.splits)

lemma ticket_requests_at_most_one: "length (ticket_requests rt c tid) \<le> 1"
  by (simp add: ticket_requests_def split: sum.splits)

lemma reads_from_refl [simp]: "reads_from w w"
proof -
  have "self w = (self w)\<lparr>self_project_id := self_project_id (self w)\<rparr>" by simp
  then show ?thesis unfolding reads_from_def by (metis queries_only_refl)
qed

lemma reads_from_trans: "reads_from w w1 \<Longrightarrow> reads_from w1 w2 \<Longrightarrow> reads_from w w2"
  unfolding reads_from_def by (auto intro: queries_only_trans)

lemma reads_from_query:
  "\<not> is_mutation q \<Longrightarrow> reads_from w (w\<lparr>sent := sent w @ [q]\<rparr>)"
proof -
  assume "\<not> is_mutation q"
  moreover have "self w = (self w)\<lparr>self_project_id := self_project_id (self w)\<rparr>" by simp
  ultimately show ?thesis unfolding reads_from_def
    by (metis queries_only_step world.select_convs(1) world.surjective world.update_convs(2))
qed

lemma reads_from_cache:
  "reads_from w w' \<Longrightarrow> reads_from w (w'\<lparr>self := (self w')\<lparr>self_project_id := p\<rparr>\<rparr>)"
  unfolding reads_from_def by auto

lemma graphql_request_world:
  "snd (graphql_request rt q vars w) = w\<lparr>sent := sent w @ [GraphQL q vars]\<rparr>"
  by (simp add: graphql_request_def Let_def)

lemma graphql_request_result:
  "fst (graphql_request rt q vars w) = response_data rt (backend rt (sent w @ [GraphQL q vars]))"
  by (simp add: graphql_request_def Let_def)

lemma get_ticket_world:
  "snd (get_ticket rt tid w) = w\<lparr>sent := sent w @ ticket_requests rt (self w) tid\<rparr>"
  by (simp add: get_ticket_def ticket_requests_def io_bind_def io_lift_def io_raise_def
        graphql_request_def Let_def split: prod.splits sum.splits)

lemma get_ticket_worldD:
  "get_ticket rt tid w = (r, w') \<Longrightarrow> w' = w\<lparr>sent := sent w @ ticket_requests rt (self w) tid\<rparr>"
  using get_ticket_world [of rt tid w] by simp

lemma get_ticket_queries_only: "get_ticket rt tid w = (r, w') \<Longrightarrow> queries_only w w'"
  using get_ticket_worldD [of rt tid w r w'] ticket_requests_read [of rt "self w" tid]
  unfolding queries_only_def by auto

subsection \<open>Project-id resolution\<close>

lemma try_scope_outcome:
  "try_scope rt q vars scope w =
     (case scope_outcome rt scope (backend rt (sent w @ [GraphQL q vars])) of
        Inl e \<Rightarrow> (Inl e, w\<lparr>sent := sent w @ [GraphQL q vars]\<rparr>)
      | Inr None \<Rightarrow> (Inr None, w\<lparr>sent := sent w @ [GraphQL q vars]\<rparr>)
      | Inr (Some pid) \<Rightarrow>
          (Inr (Some pid),
           w\<lparr>sent := sent w @ [GraphQL q vars], self := (self w)\<lparr>self_project_id := pid\<rparr>\<rparr>))"
  by (simp add: try_scope_def scope_outcome_def graphql_request_def Let_def res_bind_def
           split: sum.splits option.splits)

lemma try_scope_Some:
  "try_scope rt q vars scope w = (Inr (Some pid), w') \<Longrightarrow> self_project_id (self w') = pid"
  by (auto simp: try_scope_outcome split: sum.splits option.splits)

lemma try_scope_frame:
  assumes "try_scope rt q vars scope w = (r, w')" and "\<not> is_mutation (GraphQL q vars)"
  shows "reads_from w w'"
proof -
  let ?w = "w\<lparr>sent := sent w @ [GraphQL q vars]\<rparr>"
  have a: "reads_from w ?w" using assms(2) by (rule reads_from_query)
  have "w' = ?w \<or> (\<exists>p. w' = ?w\<lparr>self := (self ?w)\<lparr>self_project_id := p\<rparr>\<rparr>)"
    using assms(1) by (auto simp: try_scope_outcome split: sum.splits option.splits)
  then show ?thesis using a reads_from_cache [OF a] by auto
qed

lemma get_project_id_cached:
  "truthy (self_project_id (self w)) \<Longrightarrow>
     get_project_id rt pn w = (Inr (self_project_id (self w)), w)"
  by (simp add: get_project_id_def)

lemma get_project_id_memo:
  "get_project_id rt pn w = (Inr pid, w') \<Longrightarrow> self_project_id (self w') = pid"
  unfolding get_project_id_def
  by (auto split: if_splits option.splits prod.splits sum.splits dest: try_scope_Some)

lemma get_project_id_frame:
  assumes "get_project_id rt pn w = (r, w')"
  shows "reads_from w w'"
proof (cases "truthy (self_project_id (self w)) \<or> py_or pn (project_number (self w)) = None
     \<or> py_or pn (project_number (self w)) = Some 0")
  case True
  with assms show ?thesis by (auto simp: get_project_id_def split: if_splits)
next
  case False
  then obtain n where n: "py_or pn (project_number (self w)) = Some n" "n \<noteq> 0"
    and unc: "\<not> truthy (self_project_id (self w))" by auto
  obtain r1 w1 where t1:
    "try_scope rt RepositoryProjectQuery (repository_vars (self w) n) ''repository'' w = (r1, w1)"
    by fastforce
  obtain r2 w2 where t2:
    "try_scope rt UserProjectQuery (owner_vars (self w1) n) ''user'' w1 = (r2, w2)"
    by fastforce
  obtain r3 w3 where t3:
    "try_scope rt OrganizationProjectQuery (owner_vars (self w2) n) ''organization'' w2 = (r3, w3)"
    by fastforce
  have f1: "reads_from w w1" using try_scope_frame [OF t1] by simp
  have f2: "reads_from w w2" using f1 try_scope_frame [OF t2] by (auto intro: reads_from_trans)
  have f3: "reads_from w w3" using f2 try_scope_frame [OF t3] by (auto intro: reads_from_trans)
  have "w' = w1 \<or> w' = w2 \<or> w' = w3"
    using assms n unc t1 t2 t3
    by (auto simp: get_project_id_def split: sum.splits option.splits)
  with f1 f2 f3 show ?thesis by auto
qed

lemmas demo_defs = demo_runtime_def demo_world_def demo_resolved_def demo_backend_def
  demo_issue_10_def demo_issue_def init_def scope_requests_def




text \<open>
  Claim C4. Once a resolution has succeeded on an instance (with an id that is a non-empty
  value, as every node id is), any later resolution on that instance returns the same id,
  whatever project number it is given, and leaves the state as it is: no request is sent.
\<close>

theorem get_project_id_memoized:
  assumes "get_project_id rt pn w = (Inr pid, w1)" and "truthy pid"
  shows "get_project_id rt pn' w1 = (Inr pid, w1)"
  using get_project_id_memo [OF assms(1)] assms(2) get_project_id_cached [of w1 rt pn']
  by simp

text \<open>On the concrete backend: after project 1 has been resolved, asking for project 7
  returns the id of project 1 and sends nothing.\<close>

theorem get_project_id_memoized_witness:
  "get_project_id demo_runtime None demo_world = (Inr (JStr ''PVT_1''), demo_resolved)
   \<and> truthy (JStr ''PVT_1'')
   \<and> get_project_id demo_runtime (Some 7) demo_resolved = (Inr (JStr ''PVT_1''), demo_resolved)"
proof -
  have a: "get_project_id demo_runtime None demo_world = (Inr (JStr ''PVT_1''), demo_resolved)"
    by (simp add: demo_defs get_project_id_def try_scope_outcome scope_outcome_def
          response_data_def res_bind_def project_of_def dict_get_def repository_vars_def
          owner_vars_def)
  have b: "truthy (JStr ''PVT_1'')" by simp
  from get_project_id_memoized [OF a b, of "Some 7"] a b show ?thesis by simp
qed

subsection \<open>Fetching\<close>

lemma get_ticket_result:
  "fst (get_ticket rt tid w) =
     res_bind
       (if isdigit rt tid
        then res_bind (py_int rt tid) (\<lambda>n.
             res_bind (response_data rt (backend rt (sent w @
                         [GraphQL IssueByNumberQuery
                            [(''owner'', JStr (owner (self w))), (''repo'', JStr (repo (self w))),
                             (''number'', JInt n)]])))
               (\<lambda>data. res_bind (subscript data ''repository'') (\<lambda>r. subscript r ''issue'')))
        else res_bind (response_data rt (backend rt (sent w @ [GraphQL NodeQuery [(''id'', JStr tid)]])))
               (\<lambda>data. subscript data ''node''))
       (\<lambda>issue. if \<not> truthy issue then Inl (ValueError (''Ticket '' @ tid @ '' not found''))
                 else parse_issue_to_ticket rt issue JNull)"
  by (simp add: get_ticket_def io_bind_def io_lift_def io_raise_def
        graphql_request_def Let_def res_bind_def split: prod.splits sum.splits)

lemma Ticket_fresh:
  "Ticket i num ttl bdy st lbls asgs ms created updated u meta = Inr t \<Longrightarrow>
     branch t = None \<and> pull_requests t = [] \<and> subtasks t = []"
  by (auto simp: Ticket_def res_bind_def split: sum.splits)

lemma parse_issue_fresh:
  "parse_issue_to_ticket rt issue item = Inr t \<Longrightarrow>
     branch t = None \<and> pull_requests t = [] \<and> subtasks t = []"
  unfolding parse_issue_to_ticket_def res_bind_def
  by (auto split: sum.splits dest: Ticket_fresh)

lemma get_ticket_fresh:
  assumes "get_ticket rt tid w = (Inr t, w')"
  shows "branch t = None \<and> pull_requests t = [] \<and> subtasks t = []"
proof -
  have "fst (get_ticket rt tid w) = Inr t" using assms by simp
  then show ?thesis
    unfolding get_ticket_result res_bind_def
    by (auto split: sum.splits if_splits dest: parse_issue_fresh)
qed

lemma get_ticket_sends_one:
  "get_ticket rt tid w = (Inr t, w') \<Longrightarrow> \<exists>q. ticket_requests rt (self w) tid = [q]"
proof -
  assume "get_ticket rt tid w = (Inr t, w')"
  then have "fst (get_ticket rt tid w) = Inr t" by simp
  then show ?thesis
    unfolding get_ticket_result ticket_requests_def res_bind_def
    by (auto split: sum.splits if_splits)
qed

text \<open>
  Claim C7. The claim is that \<^verbatim>\<open>get_ticket\<close> sends the lookup by number when every
  character of the identifier is a digit and the lookup by node id otherwise, and that on
  both paths a reply without an issue gives the \<^verbatim>\<open>ValueError\<close>
  \<^verbatim>\<open>Ticket <identifier> not found\<close>. The code tests \<^verbatim>\<open>ticket_id.isdigit()\<close> and
  then calls \<^verbatim>\<open>int(ticket_id)\<close>, and the two do not agree on every string: on an
  identifier that \<^verbatim>\<open>isdigit\<close> accepts and \<^verbatim>\<open>int\<close> refuses, the call ends with the
  \<^verbatim>\<open>ValueError\<close> of \<^verbatim>\<open>int\<close> and sends neither lookup (first conjunct). Wherever
  \<^verbatim>\<open>int\<close> reads what \<^verbatim>\<open>isdigit\<close> accepts, the code does what the claim says: one
  request, by number with the integer read, or by node id when \<^verbatim>\<open>isdigit\<close> is false,
  and the not-found error on both paths (second and third conjunct).
\<close>

theorem get_ticket_dispatch:
  "(isdigit rt tid \<longrightarrow> py_int rt tid = Inl e \<longrightarrow> get_ticket rt tid w = (Inl e, w))
   \<and> (isdigit rt tid \<longrightarrow> py_int rt tid = Inr n \<longrightarrow>
        sent (snd (get_ticket rt tid w)) =
          sent w @ [GraphQL IssueByNumberQuery
                      [(''owner'', JStr (owner (self w))), (''repo'', JStr (repo (self w))),
                       (''number'', JInt n)]]
        \<and> (response_data rt (backend rt (sent (snd (get_ticket rt tid w)))) = Inr data \<longrightarrow>
             subscript data ''repository'' = Inr r \<longrightarrow> subscript r ''issue'' = Inr issue \<longrightarrow>
             \<not> truthy issue \<longrightarrow>
             fst (get_ticket rt tid w) = Inl (ValueError (''Ticket '' @ tid @ '' not found''))))
   \<and> (\<not> isdigit rt tid \<longrightarrow>
        sent (snd (get_ticket rt tid w)) = sent w @ [GraphQL NodeQuery [(''id'', JStr tid)]]
        \<and> (response_data rt (backend rt (sent (snd (get_ticket rt tid w)))) = Inr data \<longrightarrow>
             subscript data ''node'' = Inr issue \<longrightarrow> \<not> truthy issue \<longrightarrow>
             fst (get_ticket rt tid w) = Inl (ValueError (''Ticket '' @ tid @ '' not found''))))"
proof -
  have 1: "isdigit rt tid \<longrightarrow> py_int rt tid = Inl e \<longrightarrow> get_ticket rt tid w = (Inl e, w)"
    by (simp add: get_ticket_def io_bind_def io_lift_def)
  have 2: "isdigit rt tid \<longrightarrow> py_int rt tid = Inr n \<longrightarrow>
        sent (snd (get_ticket rt tid w)) =
          sent w @ [GraphQL IssueByNumberQuery
                      [(''owner'', JStr (owner (self w))), (''repo'', JStr (repo (self w))),
                       (''number'', JInt n)]]
        \<and> (response_data rt (backend rt (sent (snd (get_ticket rt tid w)))) = Inr data \<longrightarrow>
             subscript data ''repository'' = Inr r \<longrightarrow> subscript r ''issue'' = Inr issue \<longrightarrow>
             \<not> truthy issue \<longrightarrow>
             fst (get_ticket rt tid w) = Inl (ValueError (''Ticket '' @ tid @ '' not found'')))"
    by (simp add: get_ticket_world get_ticket_result ticket_requests_def res_bind_def)
  have 3: "\<not> isdigit rt tid \<longrightarrow>
        sent (snd (get_ticket rt tid w)) = sent w @ [GraphQL NodeQuery [(''id'', JStr tid)]]
        \<and> (response_data rt (backend rt (sent (snd (get_ticket rt tid w)))) = Inr data \<longrightarrow>
             subscript data ''node'' = Inr issue \<longrightarrow> \<not> truthy issue \<longrightarrow>
             fst (get_ticket rt tid w) = Inl (ValueError (''Ticket '' @ tid @ '' not found'')))"
    by (simp add: get_ticket_world get_ticket_result ticket_requests_def res_bind_def)
  from 1 2 3 show ?thesis by (intro conjI)
qed

text \<open>
  On the concrete backend. The identifier made of the one character U+00B2 (superscript
  two) passes \<^verbatim>\<open>isdigit\<close>; \<^verbatim>\<open>int\<close> refuses it, and the call fails with that error
  without a request. \<open>99\<close> goes to the lookup by number, as the integer 99, and
  \<open>I_404\<close> to the lookup by id; both fail with the message that names them.
\<close>

theorem get_ticket_dispatch_witness:
  "isdigit demo_runtime [CHR 0xC2, CHR 0xB2]
   \<and> get_ticket demo_runtime [CHR 0xC2, CHR 0xB2] demo_world =
       (Inl (ValueError (''invalid literal for int() with base 10: ''
               @ [CHR 0x27, CHR 0xC2, CHR 0xB2, CHR 0x27])), demo_world)
   \<and> sent (snd (get_ticket demo_runtime ''99'' demo_world)) =
       [GraphQL IssueByNumberQuery
          [(''owner'', JStr ''octo-org''), (''repo'', JStr ''demo''), (''number'', JInt 99)]]
   \<and> fst (get_ticket demo_runtime ''99'' demo_world) = Inl (ValueError ''Ticket 99 not found'')
   \<and> sent (snd (get_ticket demo_runtime ''I_404'' demo_world)) =
       [GraphQL NodeQuery [(''id'', JStr ''I_404'')]]
   \<and> fst (get_ticket demo_runtime ''I_404'' demo_world) = Inl (ValueError ''Ticket I_404 not found'')"
  using get_ticket_dispatch [of demo_runtime "[CHR 0xC2, CHR 0xB2]"
          "ValueError (''invalid literal for int() with base 10: ''
               @ [CHR 0x27, CHR 0xC2, CHR 0xB2, CHR 0x27])" demo_world]
        get_ticket_dispatch [of demo_runtime "''99''" _ demo_world 99
          "JObj [(''repository'', JObj [(''issue'', JNull)])]" "JObj [(''issue'', JNull)]" JNull]
        get_ticket_dispatch [of demo_runtime "''I_404''" _ demo_world _ "JObj [(''node'', JNull)]" _ JNull]
  by (simp add: demo_defs response_data_def demo_isdigit_def ascii_digit_def demo_int_def
        digit_value_def)

text \<open>
  Claim C10. \<^verbatim>\<open>add_branch\<close> and \<^verbatim>\<open>add_pull_request\<close> return the ticket that
  \<^verbatim>\<open>get_ticket\<close> fetched, with the branch set, respectively the URL appended to the
  pull requests. The one request either of them sends is the query of \<^verbatim>\<open>get_ticket\<close>,
  which is not a mutation (and when the fetch fails before its request, because \<^verbatim>\<open>int\<close>
  refuses the identifier, none is sent); nothing else of the state changes. The link is on
  the returned object only: every ticket that a fetch returns has no branch and no pull
  request.
\<close>

theorem add_branch_add_pull_request_read_only:
  "(\<forall>t w'. get_ticket rt tid w = (Inr t, w') \<longrightarrow>
        add_branch rt tid branch_name w = (Inr (t\<lparr>branch := Some branch_name\<rparr>), w')
      \<and> add_pull_request rt tid pr_url w =
          (Inr (t\<lparr>pull_requests := pull_requests t @ [pr_url]\<rparr>), w')
      \<and> (\<exists>q. ticket_requests rt (self w) tid = [q]))
   \<and> snd (add_branch rt tid branch_name w) =
       w\<lparr>sent := sent w @ ticket_requests rt (self w) tid\<rparr>
   \<and> snd (add_pull_request rt tid pr_url w) =
       w\<lparr>sent := sent w @ ticket_requests rt (self w) tid\<rparr>
   \<and> list_all (\<lambda>q. \<not> is_mutation q) (ticket_requests rt (self w) tid)
   \<and> length (ticket_requests rt (self w) tid) \<le> 1
   \<and> (\<forall>tid' w1 t' w2. get_ticket rt tid' w1 = (Inr t', w2) \<longrightarrow>
        branch t' = None \<and> pull_requests t' = [])"
proof -
  have "snd (add_branch rt tid branch_name w) = snd (get_ticket rt tid w)"
    by (simp add: add_branch_def io_bind_def io_return_def split: prod.splits sum.splits)
  moreover have "snd (add_pull_request rt tid pr_url w) = snd (get_ticket rt tid w)"
    by (simp add: add_pull_request_def io_bind_def io_return_def split: prod.splits sum.splits)
  ultimately show ?thesis
    using ticket_requests_at_most_one [of rt "self w" tid]
    by (auto simp: get_ticket_world add_branch_def add_pull_request_def io_bind_def io_return_def
          dest: get_ticket_fresh get_ticket_sends_one)
qed

lemmas eval_defs = get_ticket_def io_bind_def io_lift_def io_raise_def io_return_def
  graphql_request_def response_data_def res_bind_def dict_get_def demo_isdigit_def ascii_digit_def
  demo_int_def digit_value_def parse_issue_to_ticket_def parse_names_def parse_milestone_def
  parse_status_def parse_time_def replace_Z_def Ticket_def TicketStatus_TODO_def Let_def

lemma demo_get_ticket_10:
  "get_ticket demo_runtime ''10'' demo_world =
     (Inr (demo_ticket_10 ''2024-05-01T12:00:00+00:00''),
      demo_world\<lparr>sent := [GraphQL IssueByNumberQuery
         [(''owner'', JStr ''octo-org''), (''repo'', JStr ''demo''), (''number'', JInt 10)]]\<rparr>)"
  by (simp add: demo_defs eval_defs demo_ticket_10_def)

text \<open>
  On the concrete backend, for issue 10: one query by number is sent, and the branch and
  the URL are on the returned ticket.
\<close>

theorem add_branch_add_pull_request_read_only_witness:
  "add_branch demo_runtime ''10'' ''fix/crash'' demo_world =
     (Inr ((demo_ticket_10 ''2024-05-01T12:00:00+00:00'')\<lparr>branch := Some ''fix/crash''\<rparr>),
      demo_world\<lparr>sent := [GraphQL IssueByNumberQuery
         [(''owner'', JStr ''octo-org''), (''repo'', JStr ''demo''), (''number'', JInt 10)]]\<rparr>)
   \<and> add_pull_request demo_runtime ''10'' ''https://github.com/octo-org/demo/pull/12'' demo_world =
     (Inr ((demo_ticket_10 ''2024-05-01T12:00:00+00:00'')
             \<lparr>pull_requests := [''https://github.com/octo-org/demo/pull/12'']\<rparr>),
      demo_world\<lparr>sent := [GraphQL IssueByNumberQuery
         [(''owner'', JStr ''octo-org''), (''repo'', JStr ''demo''), (''number'', JInt 10)]]\<rparr>)"
  using add_branch_add_pull_request_read_only
          [of demo_runtime "''10''" demo_world "''fix/crash''"
              "''https://github.com/octo-org/demo/pull/12''"]
        demo_get_ticket_10
  by (simp add: demo_ticket_10_def)

subsection \<open>The normalizer\<close>

lemma parse_names_nested:
  "map_of kvs ''nodes'' = Some (JList xs) \<Longrightarrow>
     parse_names field key (JObj ((field, JObj kvs) # rest)) = traverse (\<lambda>item. subscript item key) xs"
  by (simp add: parse_names_def res_bind_def)

lemma parse_names_flat:
  "parse_names field key (JObj ((field, JList xs) # rest)) = traverse (\<lambda>item. subscript item key) xs"
  by (simp add: parse_names_def res_bind_def)

lemma parse_names_skip:
  "k \<noteq> field \<Longrightarrow> parse_names field key (JObj ((k, v) # rest)) = parse_names field key (JObj rest)"
  by (simp add: parse_names_def)

lemma traverse_validate_str: "traverse validate_str xs = Inr ys \<Longrightarrow> xs = map JStr ys"
proof (induction xs arbitrary: ys)
  case Nil
  then show ?case by simp
next
  case (Cons x xs)
  then show ?case
    by (cases x) (auto split: sum.splits)
qed

lemma Ticket_fields:
  "Ticket i num ttl bdy st lbls asgs ms created updated u meta = Inr t \<Longrightarrow>
     lbls = map JStr (labels t) \<and> asgs = map JStr (assignees t) \<and> st = JStr (status t)"
  by (cases st) (auto simp: Ticket_def res_bind_def split: sum.splits dest: traverse_validate_str)

lemma parse_issue_fields:
  "parse_issue_to_ticket rt issue item = Inr t \<Longrightarrow>
     parse_names ''labels'' ''name'' issue = Inr (map JStr (labels t))
     \<and> parse_names ''assignees'' ''login'' issue = Inr (map JStr (assignees t))
     \<and> parse_status item = Inr (JStr (status t))"
  unfolding parse_issue_to_ticket_def res_bind_def
  by (auto split: sum.splits dest: Ticket_fields)

lemma parse_issue_cong:
  assumes "parse_names ''labels'' ''name'' (JObj a) = parse_names ''labels'' ''name'' (JObj b)"
    and "parse_names ''assignees'' ''login'' (JObj a) = parse_names ''assignees'' ''login'' (JObj b)"
    and "\<And>k. k \<noteq> ''labels'' \<Longrightarrow> k \<noteq> ''assignees'' \<Longrightarrow> map_of a k = map_of b k"
  shows "parse_issue_to_ticket rt (JObj a) item = parse_issue_to_ticket rt (JObj b) item"
proof -
  have s: "\<And>key. key \<noteq> ''labels'' \<Longrightarrow> key \<noteq> ''assignees'' \<Longrightarrow>
             subscript (JObj a) key = subscript (JObj b) key"
    by (simp add: assms(3))
  have g: "\<And>key. key \<noteq> ''labels'' \<Longrightarrow> key \<noteq> ''assignees'' \<Longrightarrow>
             dict_get (JObj a) key = dict_get (JObj b) key"
    by (simp add: dict_get_def assms(3))
  have m: "parse_milestone (JObj a) = parse_milestone (JObj b)"
    unfolding parse_milestone_def by (simp add: g assms(3) cong: if_cong)
  have t: "\<And>key. key \<noteq> ''labels'' \<Longrightarrow> key \<noteq> ''assignees'' \<Longrightarrow>
             parse_time rt (JObj a) key = parse_time rt (JObj b) key"
    unfolding parse_time_def by (simp add: g assms(3) cong: if_cong)
  show ?thesis
    unfolding parse_issue_to_ticket_def
    by (simp add: assms m t g)
qed

text \<open>
  Claim C8. Take label records \<open>ls\<close> and \<open>ls'\<close> that carry the same names in the same
  order, and assignee records \<open>as\<close> and \<open>as'\<close> that carry the same logins in the same
  order. Whichever of the two shapes (the flat list, or the dictionary with the list under
  \<^verbatim>\<open>nodes\<close>) the labels have and whichever the assignees have, each chosen on its
  own, the normalizer gives the same result; and the labels and assignees of the ticket
  are those names and logins in that order.
\<close>

theorem normalize_shapes_agree:
  assumes names: "traverse (\<lambda>l. subscript l ''name'') ls = traverse (\<lambda>l. subscript l ''name'') ls'"
    and logins: "traverse (\<lambda>a. subscript a ''login'') as = traverse (\<lambda>a. subscript a ''login'') as'"
    and L: "L \<in> {JList ls, JObj [(''nodes'', JList ls)]}"
    and L': "L' \<in> {JList ls', JObj [(''nodes'', JList ls')]}"
    and A: "A \<in> {JList as, JObj [(''nodes'', JList as)]}"
    and A': "A' \<in> {JList as', JObj [(''nodes'', JList as')]}"
  shows "parse_issue_to_ticket rt (JObj ((''labels'', L) # (''assignees'', A) # rest)) item =
         parse_issue_to_ticket rt (JObj ((''labels'', L') # (''assignees'', A') # rest)) item
       \<and> (\<forall>t. parse_issue_to_ticket rt (JObj ((''labels'', L) # (''assignees'', A) # rest)) item = Inr t
            \<longrightarrow> traverse (\<lambda>l. subscript l ''name'') ls = Inr (map JStr (labels t))
              \<and> traverse (\<lambda>a. subscript a ''login'') as = Inr (map JStr (assignees t)))"
proof -
  have l: "parse_names ''labels'' ''name'' (JObj ((''labels'', L) # (''assignees'', A) # rest))
           = traverse (\<lambda>l. subscript l ''name'') ls"
    using L by (auto simp: parse_names_flat parse_names_nested)
  have l': "parse_names ''labels'' ''name'' (JObj ((''labels'', L') # (''assignees'', A') # rest))
           = traverse (\<lambda>l. subscript l ''name'') ls'"
    using L' by (auto simp: parse_names_flat parse_names_nested)
  have a: "parse_names ''assignees'' ''login'' (JObj ((''labels'', L) # (''assignees'', A) # rest))
           = traverse (\<lambda>a. subscript a ''login'') as"
    using A by (auto simp: parse_names_skip parse_names_flat parse_names_nested)
  have a': "parse_names ''assignees'' ''login'' (JObj ((''labels'', L') # (''assignees'', A') # rest))
           = traverse (\<lambda>a. subscript a ''login'') as'"
    using A' by (auto simp: parse_names_skip parse_names_flat parse_names_nested)
  have eq: "parse_issue_to_ticket rt (JObj ((''labels'', L) # (''assignees'', A) # rest)) item =
         parse_issue_to_ticket rt (JObj ((''labels'', L') # (''assignees'', A') # rest)) item"
    by (rule parse_issue_cong) (simp_all add: l l' a a' names logins)
  show ?thesis
    using eq l a parse_issue_fields [of rt "JObj ((''labels'', L) # (''assignees'', A) # rest)" item]
    by auto
qed


text \<open>
  Labels nested and assignees flat against labels flat and assignees nested, with records
  that differ in their other keys: the same ticket, with the labels \<open>bug\<close> and \<open>ui\<close>.
\<close>

theorem normalize_shapes_agree_witness:
  "parse_issue_to_ticket demo_runtime
     (JObj [(''labels'', JObj [(''nodes'', JList [JObj [(''name'', JStr ''bug'')],
                                                  JObj [(''name'', JStr ''ui'')]])]),
            (''assignees'', JList [JObj [(''login'', JStr ''octocat''), (''id'', JInt 5)]]),
            (''id'', JStr ''I_10''), (''title'', JStr ''Fix crash'')]) JNull
   = parse_issue_to_ticket demo_runtime
     (JObj [(''labels'', JList [JObj [(''id'', JInt 1), (''name'', JStr ''bug'')],
                               JObj [(''id'', JInt 2), (''name'', JStr ''ui'')]]),
            (''assignees'', JObj [(''nodes'', JList [JObj [(''login'', JStr ''octocat'')]])]),
            (''id'', JStr ''I_10''), (''title'', JStr ''Fix crash'')]) JNull
   \<and> map_sum id labels (parse_issue_to_ticket demo_runtime
     (JObj [(''labels'', JList [JObj [(''id'', JInt 1), (''name'', JStr ''bug'')],
                               JObj [(''id'', JInt 2), (''name'', JStr ''ui'')]]),
            (''assignees'', JObj [(''nodes'', JList [JObj [(''login'', JStr ''octocat'')]])]),
            (''id'', JStr ''I_10''), (''title'', JStr ''Fix crash'')]) JNull)
     = Inr [''bug'', ''ui'']"
proof -
  have n: "traverse (\<lambda>l. subscript l ''name'')
             [JObj [(''name'', JStr ''bug'')], JObj [(''name'', JStr ''ui'')]]
         = traverse (\<lambda>l. subscript l ''name'')
             [JObj [(''id'', JInt 1), (''name'', JStr ''bug'')],
              JObj [(''id'', JInt 2), (''name'', JStr ''ui'')]]"
    by simp
  have l: "traverse (\<lambda>a. subscript a ''login'') [JObj [(''login'', JStr ''octocat''), (''id'', JInt 5)]]
         = traverse (\<lambda>a. subscript a ''login'') [JObj [(''login'', JStr ''octocat'')]]"
    by simp
  from normalize_shapes_agree [OF n l, of _ _ _ _ demo_runtime
         "[(''id'', JStr ''I_10''), (''title'', JStr ''Fix crash'')]" JNull]
  have "parse_issue_to_ticket demo_runtime
     (JObj [(''labels'', JObj [(''nodes'', JList [JObj [(''name'', JStr ''bug'')],
                                                  JObj [(''name'', JStr ''ui'')]])]),
            (''assignees'', JList [JObj [(''login'', JStr ''octocat''), (''id'', JInt 5)]]),
            (''id'', JStr ''I_10''), (''title'', JStr ''Fix crash'')]) JNull
   = parse_issue_to_ticket demo_runtime
     (JObj [(''labels'', JList [JObj [(''id'', JInt 1), (''name'', JStr ''bug'')],
                               JObj [(''id'', JInt 2), (''name'', JStr ''ui'')]]),
            (''assignees'', JObj [(''nodes'', JList [JObj [(''login'', JStr ''octocat'')]])]),
            (''id'', JStr ''I_10''), (''title'', JStr ''Fix crash'')]) JNull"
    by blast
  moreover have "map_sum id labels (parse_issue_to_ticket demo_runtime
     (JObj [(''labels'', JList [JObj [(''id'', JInt 1), (''name'', JStr ''bug'')],
                               JObj [(''id'', JInt 2), (''name'', JStr ''ui'')]]),
            (''assignees'', JObj [(''nodes'', JList [JObj [(''login'', JStr ''octocat'')]])]),
            (''id'', JStr ''I_10''), (''title'', JStr ''Fix crash'')]) JNull)
     = Inr [''bug'', ''ui'']"
    by (simp add: eval_defs demo_defs)
  ultimately show ?thesis by simp
qed

lemma scan_field_values_append:
  "scan_field_values st (xs @ ys) =
     res_bind (scan_field_values st xs) (\<lambda>st'. scan_field_values st' ys)"
  by (induction xs arbitrary: st) (auto simp: res_bind_def split: sum.splits)

lemma scan_field_values_others:
  "\<forall>f\<in>set ys. isinstance_dict f \<and> \<not> single_select f \<Longrightarrow> scan_field_values st ys = Inr st"
proof (induction ys)
  case Nil
  then show ?case by simp
next
  case (Cons f ys)
  then obtain kvs where "f = JObj kvs" by (cases f) auto
  with Cons show ?case by (auto simp: dict_get_def split: option.splits)
qed

lemma scan_field_values_dicts:
  "\<forall>f\<in>set xs. isinstance_dict f \<Longrightarrow> \<exists>st'. scan_field_values st xs = Inr st'"
proof (induction xs arbitrary: st)
  case Nil
  then show ?case by simp
next
  case (Cons f xs)
  then obtain kvs where "f = JObj kvs" by (cases f) auto
  with Cons show ?case by (auto simp: dict_get_def)
qed

lemma parse_status_nodes:
  assumes "map_of item ''fieldValues'' = Some (JObj fv)" "fv \<noteq> []"
    and "map_of fv ''nodes'' = Some (JList nodes)"
  shows "parse_status (JObj item) = scan_field_values (JStr ''Todo'') nodes"
proof -
  have "item \<noteq> []" using assms(1) by auto
  then show ?thesis using assms
    by (simp add: parse_status_def dict_get_def res_bind_def TicketStatus_TODO_def)
qed

text \<open>
  Claim C6, as amended. For a project item whose field values are dictionaries: the status
  is the name of the last single-select value of the collection (the loop has no
  \<^verbatim>\<open>break\<close>, a later single-select value overwrites an earlier one), so with one
  single-select value it is that value's name; when the collection has no single-select
  value, and when no project item is given, the status is \<open>Todo\<close>.
\<close>

theorem status_of_last_single_select:
  assumes item: "map_of item ''fieldValues'' = Some (JObj fv)" "fv \<noteq> []"
                "map_of fv ''nodes'' = Some (JList nodes)"
    and dicts: "\<forall>f\<in>set nodes. isinstance_dict f"
  shows "(\<forall>before e n after.
            nodes = before @ [JObj e] @ after \<and> single_select (JObj e)
            \<and> map_of e ''name'' = Some (JStr n) \<and> (\<forall>f\<in>set after. \<not> single_select f) \<longrightarrow>
            parse_status (JObj item) = Inr (JStr n)
            \<and> (\<forall>t. parse_issue_to_ticket rt issue (JObj item) = Inr t \<longrightarrow> status t = n))
       \<and> ((\<forall>f\<in>set nodes. \<not> single_select f) \<longrightarrow>
            parse_status (JObj item) = Inr (JStr ''Todo'')
            \<and> (\<forall>t. parse_issue_to_ticket rt issue (JObj item) = Inr t \<longrightarrow> status t = ''Todo''))
       \<and> (\<forall>t. parse_issue_to_ticket rt issue JNull = Inr t \<longrightarrow> status t = ''Todo'')"
proof -
  note ps = parse_status_nodes [OF item]
  have last: "parse_status (JObj item) = Inr (JStr n)"
    if "nodes = before @ [JObj e] @ after" "single_select (JObj e)"
       "map_of e ''name'' = Some (JStr n)" "\<forall>f\<in>set after. \<not> single_select f"
    for before e n after
  proof -
    from dicts that(1) have b: "\<forall>f\<in>set before. isinstance_dict f"
      and a: "\<forall>f\<in>set after. isinstance_dict f \<and> \<not> single_select f"
      using that(4) by auto
    from scan_field_values_dicts [OF b] obtain st' where
      st': "scan_field_values (JStr ''Todo'') before = Inr st'" by blast
    have "scan_field_values st' ([JObj e] @ after) = Inr (JStr n)"
      using that(2,3) scan_field_values_others [OF a] by (simp add: dict_get_def)
    then show ?thesis
      unfolding ps that(1) scan_field_values_append [of _ before] st' by (simp add: res_bind_def)
  qed
  have none: "parse_status (JObj item) = Inr (JStr ''Todo'')"
    if "\<forall>f\<in>set nodes. \<not> single_select f"
    using that dicts ps scan_field_values_others [of nodes "JStr ''Todo''"] by simp
  have null: "parse_status JNull = Inr (JStr ''Todo'')"
    by (simp add: parse_status_def TicketStatus_TODO_def)
  have lift: "status t = s"
    if "parse_issue_to_ticket rt issue it = Inr t" "parse_status it = Inr (JStr s)" for t s it
    using parse_issue_fields [OF that(1)] that(2) by simp
  show ?thesis
    using last none null lift by blast
qed

text \<open>
  The item of the concrete instance: In Progress, a text value, Done, an empty value; the
  status is Done.
\<close>

theorem status_of_last_single_select_witness:
  "map_of demo_item ''fieldValues'' = Some (JObj [(''nodes'', JList demo_field_values)])
   \<and> list_all isinstance_dict demo_field_values
   \<and> parse_status (JObj demo_item) = Inr (JStr ''Done'')"
proof -
  have i: "map_of demo_item ''fieldValues'' = Some (JObj [(''nodes'', JList demo_field_values)])"
          "[(''nodes'', JList demo_field_values)] \<noteq> []"
          "map_of [(''nodes'', JList demo_field_values)] ''nodes'' = Some (JList demo_field_values)"
    by (simp_all add: demo_item_def)
  have d: "\<forall>f\<in>set demo_field_values. isinstance_dict f"
    by (simp add: demo_field_values_def)
  have "demo_field_values =
          [JObj [(''__typename'', JStr ''ProjectV2ItemFieldSingleSelectValue''),
                 (''name'', JStr ''In Progress'')],
           JObj [(''__typename'', JStr ''ProjectV2ItemFieldTextValue''), (''text'', JStr ''notes'')]]
          @ [JObj [(''__typename'', JStr ''ProjectV2ItemFieldSingleSelectValue''),
                   (''name'', JStr ''Done'')]] @ [JObj []]
        \<and> single_select (JObj [(''__typename'', JStr ''ProjectV2ItemFieldSingleSelectValue''),
                   (''name'', JStr ''Done'')])
        \<and> map_of [(''__typename'', JStr ''ProjectV2ItemFieldSingleSelectValue''),
                   (''name'', JStr ''Done'')] ''name'' = Some (JStr ''Done'')
        \<and> (\<forall>f\<in>set [JObj []]. \<not> single_select f)"
    by (simp add: demo_field_values_def)
  with status_of_last_single_select [OF i d, of demo_runtime JNull]
  have "parse_status (JObj demo_item) = Inr (JStr ''Done'')" by blast
  with i d show ?thesis by (simp add: list_all_iff)
qed

text \<open>
  Claim C6 as stated fails: the first single-select value of the item is In Progress, and
  the ticket's status is Done.
\<close>

theorem status_of_first_single_select_counterexample:
  "find single_select demo_field_values =
     Some (JObj [(''__typename'', JStr ''ProjectV2ItemFieldSingleSelectValue''),
                 (''name'', JStr ''In Progress'')])
   \<and> map_sum id status
        (parse_issue_to_ticket demo_runtime
           (demo_issue ''I_10'' 10 ''Fix crash'' ''2024-05-01T12:00:00Z'') (JObj demo_item))
      = Inr ''Done''"
  by (simp add: demo_field_values_def demo_item_def eval_defs demo_defs)

subsection \<open>The status field\<close>

lemma get_status_field_id_frame:
  assumes "get_status_field_id rt pn w = (r, w')"
  shows "reads_from w w'"
proof -
  from assms have "(\<exists>e. get_project_id rt pn w = (Inl e, w')) \<or>
      (\<exists>pid w1. get_project_id rt pn w = (Inr pid, w1)
         \<and> w' = w1\<lparr>sent := sent w1 @ [GraphQL ProjectFieldsQuery [(''projectId'', pid)]]\<rparr>)"
    by (auto simp: get_status_field_id_def io_bind_def io_lift_def graphql_request_def Let_def
          split: prod.splits sum.splits)
  then show ?thesis
  proof
    assume "\<exists>e. get_project_id rt pn w = (Inl e, w')"
    then show ?thesis by (auto dest: get_project_id_frame)
  next
    assume "\<exists>pid w1. get_project_id rt pn w = (Inr pid, w1)
         \<and> w' = w1\<lparr>sent := sent w1 @ [GraphQL ProjectFieldsQuery [(''projectId'', pid)]]\<rparr>"
    then obtain pid w1 where p: "get_project_id rt pn w = (Inr pid, w1)"
      and w': "w' = w1\<lparr>sent := sent w1 @ [GraphQL ProjectFieldsQuery [(''projectId'', pid)]]\<rparr>"
      by blast
    have "reads_from w1 w'" unfolding w' by (rule reads_from_query) simp
    with get_project_id_frame [OF p] show ?thesis by (rule reads_from_trans)
  qed
qed

lemma get_status_field_id_cached:
  "truthy (self_project_id (self w)) \<Longrightarrow>
     snd (get_status_field_id rt pn w) =
       w\<lparr>sent := sent w @ [GraphQL ProjectFieldsQuery [(''projectId'', self_project_id (self w))]]\<rparr>"
  by (simp add: get_status_field_id_def io_bind_def io_lift_def get_project_id_cached
        graphql_request_def Let_def split: sum.splits)

text \<open>
  Claim C5, as amended. The attribute \<^verbatim>\<open>_status_field_id\<close> is declared with the two
  other cache attributes and is never written: a status-field resolution leaves it as it
  was. Nothing of the status field is memoized; on an instance whose project id is
  memoized, every resolution sends the query for the project's fields again, and only
  the project id comes from the instance.
\<close>

theorem status_field_id_never_memoized:
  "self_status_field_id (self (snd (get_status_field_id rt pn w))) = self_status_field_id (self w)
   \<and> (truthy (self_project_id (self w)) \<longrightarrow>
        snd (get_status_field_id rt pn w) =
          w\<lparr>sent := sent w @
                [GraphQL ProjectFieldsQuery [(''projectId'', self_project_id (self w))]]\<rparr>)"
proof -
  obtain r w' where g: "get_status_field_id rt pn w = (r, w')" by fastforce
  from get_status_field_id_frame [OF g] obtain p where
    "self w' = (self w)\<lparr>self_project_id := p\<rparr>" unfolding reads_from_def by blast
  then have "self_status_field_id (self w') = self_status_field_id (self w)" by simp
  with g get_status_field_id_cached [of w rt pn] show ?thesis by simp
qed

lemmas status_defs = get_status_field_id_def status_field_of_def get_project_id_def

lemma demo_status_field_first:
  "get_status_field_id demo_runtime None demo_world =
     (Inr (JStr ''F_1'', demo_options),
      demo_after [GraphQL ProjectFieldsQuery [(''projectId'', JStr ''PVT_1'')]])"
  by (simp add: demo_defs eval_defs status_defs try_scope_outcome scope_outcome_def project_of_def
        repository_vars_def owner_vars_def demo_options_def demo_after_def)

lemma demo_status_field_again:
  "get_status_field_id demo_runtime None
       (demo_after [GraphQL ProjectFieldsQuery [(''projectId'', JStr ''PVT_1'')]]) =
     (Inr (JStr ''F_1'', demo_options),
      demo_after [GraphQL ProjectFieldsQuery [(''projectId'', JStr ''PVT_1'')],
                  GraphQL ProjectFieldsQuery [(''projectId'', JStr ''PVT_1'')]])"
  by (simp add: demo_defs eval_defs status_defs demo_options_def demo_after_def)

text \<open>
  On the instance with project 1 resolved: the attribute stays \<^verbatim>\<open>None\<close> and the
  fields query is sent.
\<close>

theorem status_field_id_never_memoized_witness:
  "truthy (self_project_id (self demo_resolved))
   \<and> self_status_field_id (self (snd (get_status_field_id demo_runtime (Some 1) demo_resolved))) = JNull
   \<and> snd (get_status_field_id demo_runtime (Some 1) demo_resolved) =
       demo_after [GraphQL ProjectFieldsQuery [(''projectId'', JStr ''PVT_1'')]]"
  using status_field_id_never_memoized [of demo_runtime "Some 1" demo_resolved]
  by (simp add: demo_defs demo_after_def)

text \<open>
  Claim C5 as stated fails: after a first successful resolution the attribute is still
  \<^verbatim>\<open>None\<close>, and a second resolution on the same instance, which succeeds with the same
  result, sends the fields query once more.
\<close>

theorem status_field_id_memoized_counterexample:
  "fst (get_status_field_id demo_runtime None demo_world) = Inr (JStr ''F_1'', demo_options)
   \<and> self_status_field_id (self (snd (get_status_field_id demo_runtime None demo_world))) = JNull
   \<and> fst (get_status_field_id demo_runtime None (snd (get_status_field_id demo_runtime None demo_world)))
       = Inr (JStr ''F_1'', demo_options)
   \<and> sent (snd (get_status_field_id demo_runtime None
                  (snd (get_status_field_id demo_runtime None demo_world))))
       = sent (snd (get_status_field_id demo_runtime None demo_world))
         @ [GraphQL ProjectFieldsQuery [(''projectId'', JStr ''PVT_1'')]]"
  by (simp add: demo_status_field_first demo_status_field_again)
     (simp add: demo_after_def demo_defs)

subsection \<open>The status update\<close>











lemma option_name_is_str:
  "find_option rt options st = Inr option_id \<Longrightarrow> truthy option_id \<Longrightarrow>
     \<exists>s. option_name options option_id = Some (JStr s)"
proof (induction options)
  case Nil
  then show ?case by simp
next
  case (Cons opt options)
  obtain k v where opt: "opt = (k, v)" by (cases opt)
  show ?case
  proof (cases k)
    case (JStr n)
    with Cons opt show ?thesis by (auto split: if_splits)
  qed (use Cons opt in auto)
qed




subsection \<open>Relations\<close>

lemma Comment_ticket_id:
  "Comment i tid auth bdy created updated u = Inr c \<Longrightarrow> comment_ticket_id c = tid"
  by (auto simp: Comment_def res_bind_def split: sum.splits)

lemma parse_comment_ticket_id:
  "parse_comment rt tid comment_data = Inr c \<Longrightarrow> comment_ticket_id c = tid"
  unfolding parse_comment_def res_bind_def
  by (auto split: sum.splits if_splits dest: Comment_ticket_id)

lemma add_comment_world:
  assumes "add_comment rt tid text w = (Inr c, w')"
  shows "w' = w\<lparr>sent := sent w @ ticket_requests rt (self w) tid @
                 [GraphQL AddCommentMutation
                   [(''subjectId'', JStr (comment_ticket_id c)), (''body'', JStr text)]]\<rparr>"
proof -
  from assms obtain t w1 where g: "get_ticket rt tid w = (Inr t, w1)"
    and rest: "io_bind (graphql_request rt AddCommentMutation
                [(''subjectId'', JStr (ticket_id t)), (''body'', JStr text)]) (\<lambda>data.
       io_lift
         (res_bind (subscript data ''addComment'') (\<lambda>a.
          res_bind (subscript a ''commentEdge'') (\<lambda>e.
          res_bind (subscript e ''node'') (\<lambda>comment_data.
            parse_comment rt (ticket_id t) comment_data))))) w1 = (Inr c, w')"
    using io_bind_result [OF assms [unfolded add_comment_def]] by auto
  have w1: "w1 = w\<lparr>sent := sent w @ ticket_requests rt (self w) tid\<rparr>"
    using g by (rule get_ticket_worldD)
  from rest have w': "w' = w1\<lparr>sent := sent w1 @ [GraphQL AddCommentMutation
                [(''subjectId'', JStr (ticket_id t)), (''body'', JStr text)]]\<rparr>"
    and c: "comment_ticket_id c = ticket_id t"
    by (auto simp: io_bind_def io_lift_def graphql_request_def Let_def res_bind_def
          split: sum.splits dest: parse_comment_ticket_id)
  show ?thesis unfolding w' w1 c by simp
qed

text \<open>
  Claim C9, as amended. Each of \<^verbatim>\<open>add_parent\<close>, \<^verbatim>\<open>add_blocked_by\<close>,
  \<^verbatim>\<open>add_blocking\<close> and \<^verbatim>\<open>add_subtask\<close> fetches the first ticket, then the second; when
  either fetch fails, the operation fails with that error (the \<^verbatim>\<open>ValueError\<close> of
  \<^verbatim>\<open>get_ticket\<close> for a ticket that does not exist) and only queries have been sent. It
  then posts one comment on the first ticket, the sentence of the relation with the
  number and the title of the second: the comment is the only mutation of the call. The
  first three then fetch the first ticket again and return the result of that fetch.
  \<^verbatim>\<open>add_subtask\<close> does not fetch again: it returns the first ticket as fetched before
  the comment, with the identifier given for the subtask appended to its subtasks.
\<close>

theorem relations_post_one_comment:
  "(\<forall>e w1. get_ticket rt a w = (Inl e, w1) \<longrightarrow>
       add_parent rt a b w = (Inl e, w1) \<and> add_blocked_by rt a b w = (Inl e, w1)
     \<and> add_blocking rt a b w = (Inl e, w1) \<and> add_subtask rt a b w = (Inl e, w1)
     \<and> queries_only w w1)
   \<and> (\<forall>ta w1 e w2. get_ticket rt a w = (Inr ta, w1) \<and> get_ticket rt b w1 = (Inl e, w2) \<longrightarrow>
       add_parent rt a b w = (Inl e, w2) \<and> add_blocked_by rt a b w = (Inl e, w2)
     \<and> add_blocking rt a b w = (Inl e, w2) \<and> add_subtask rt a b w = (Inl e, w2)
     \<and> queries_only w w2)
   \<and> (\<forall>ta w1 tb w2 c w3.
         get_ticket rt a w = (Inr ta, w1) \<and> get_ticket rt b w1 = (Inr tb, w2)
         \<and> add_comment rt a (sentence ''Parent'' tb) w2 = (Inr c, w3) \<longrightarrow>
         add_parent rt a b w = get_ticket rt a w3
         \<and> filter is_mutation (sent w3) = filter is_mutation (sent w) @
             [GraphQL AddCommentMutation
                [(''subjectId'', JStr (comment_ticket_id c)), (''body'', JStr (sentence ''Parent'' tb))]])
   \<and> (\<forall>ta w1 tb w2 c w3.
         get_ticket rt a w = (Inr ta, w1) \<and> get_ticket rt b w1 = (Inr tb, w2)
         \<and> add_comment rt a (sentence ''Blocked by'' tb) w2 = (Inr c, w3) \<longrightarrow>
         add_blocked_by rt a b w = get_ticket rt a w3
         \<and> filter is_mutation (sent w3) = filter is_mutation (sent w) @
             [GraphQL AddCommentMutation
                [(''subjectId'', JStr (comment_ticket_id c)),
                 (''body'', JStr (sentence ''Blocked by'' tb))]])
   \<and> (\<forall>ta w1 tb w2 c w3.
         get_ticket rt a w = (Inr ta, w1) \<and> get_ticket rt b w1 = (Inr tb, w2)
         \<and> add_comment rt a (sentence ''Blocking'' tb) w2 = (Inr c, w3) \<longrightarrow>
         add_blocking rt a b w = get_ticket rt a w3
         \<and> filter is_mutation (sent w3) = filter is_mutation (sent w) @
             [GraphQL AddCommentMutation
                [(''subjectId'', JStr (comment_ticket_id c)),
                 (''body'', JStr (sentence ''Blocking'' tb))]])
   \<and> (\<forall>ta w1 tb w2 c w3.
         get_ticket rt a w = (Inr ta, w1) \<and> get_ticket rt b w1 = (Inr tb, w2)
         \<and> add_comment rt a (sentence ''Subtask'' tb) w2 = (Inr c, w3) \<longrightarrow>
         add_subtask rt a b w = (Inr (ta\<lparr>subtasks := subtasks ta @ [b]\<rparr>), w3)
         \<and> filter is_mutation (sent w3) = filter is_mutation (sent w) @
             [GraphQL AddCommentMutation
                [(''subjectId'', JStr (comment_ticket_id c)),
                 (''body'', JStr (sentence ''Subtask'' tb))]])"
proof -
  have first: "add_parent rt a b w = (Inl e, w1) \<and> add_blocked_by rt a b w = (Inl e, w1)
     \<and> add_blocking rt a b w = (Inl e, w1) \<and> add_subtask rt a b w = (Inl e, w1)
     \<and> queries_only w w1"
    if "get_ticket rt a w = (Inl e, w1)" for e w1
    using that get_ticket_queries_only [OF that]
    by (simp add: add_parent_def add_blocked_by_def add_blocking_def add_subtask_def
          io_bind_Inl)
  have second: "add_parent rt a b w = (Inl e, w2) \<and> add_blocked_by rt a b w = (Inl e, w2)
     \<and> add_blocking rt a b w = (Inl e, w2) \<and> add_subtask rt a b w = (Inl e, w2)
     \<and> queries_only w w2"
    if "get_ticket rt a w = (Inr ta, w1)" "get_ticket rt b w1 = (Inl e, w2)" for ta w1 e w2
  proof -
    have "queries_only w w2"
      using get_ticket_queries_only [OF that(1)] get_ticket_queries_only [OF that(2)]
      by (rule queries_only_trans)
    then show ?thesis using that
      by (simp add: add_parent_def add_blocked_by_def add_blocking_def add_subtask_def
            io_bind_Inl io_bind_Inr)
  qed
  have muts: "filter is_mutation (sent w3) = filter is_mutation (sent w) @
             [GraphQL AddCommentMutation
                [(''subjectId'', JStr (comment_ticket_id c)), (''body'', JStr msg)]]"
    if "get_ticket rt a w = (Inr ta, w1)" "get_ticket rt b w1 = (Inr tb, w2)"
       "add_comment rt a msg w2 = (Inr c, w3)" for ta w1 tb w2 c w3 msg
    using get_ticket_worldD [OF that(1)] get_ticket_worldD [OF that(2)] add_comment_world [OF that(3)]
    by simp
  have parent: "add_parent rt a b w = get_ticket rt a w3"
    if "get_ticket rt a w = (Inr ta, w1)" "get_ticket rt b w1 = (Inr tb, w2)"
       "add_comment rt a (sentence ''Parent'' tb) w2 = (Inr c, w3)" for ta w1 tb w2 c w3
    using that by (simp add: add_parent_def io_bind_Inr sentence_def)
  have blocked: "add_blocked_by rt a b w = get_ticket rt a w3"
    if "get_ticket rt a w = (Inr ta, w1)" "get_ticket rt b w1 = (Inr tb, w2)"
       "add_comment rt a (sentence ''Blocked by'' tb) w2 = (Inr c, w3)" for ta w1 tb w2 c w3
    using that by (simp add: add_blocked_by_def io_bind_Inr sentence_def)
  have blocking: "add_blocking rt a b w = get_ticket rt a w3"
    if "get_ticket rt a w = (Inr ta, w1)" "get_ticket rt b w1 = (Inr tb, w2)"
       "add_comment rt a (sentence ''Blocking'' tb) w2 = (Inr c, w3)" for ta w1 tb w2 c w3
    using that by (simp add: add_blocking_def io_bind_Inr sentence_def)
  have subtask: "add_subtask rt a b w = (Inr (ta\<lparr>subtasks := subtasks ta @ [b]\<rparr>), w3)"
    if "get_ticket rt a w = (Inr ta, w1)" "get_ticket rt b w1 = (Inr tb, w2)"
       "add_comment rt a (sentence ''Subtask'' tb) w2 = (Inr c, w3)" for ta w1 tb w2 c w3
    using that by (simp add: add_subtask_def io_bind_Inr io_return_def sentence_def)
  have c1: "(\<forall>e w1. get_ticket rt a w = (Inl e, w1) \<longrightarrow>
       add_parent rt a b w = (Inl e, w1) \<and> add_blocked_by rt a b w = (Inl e, w1)
     \<and> add_blocking rt a b w = (Inl e, w1) \<and> add_subtask rt a b w = (Inl e, w1)
     \<and> queries_only w w1)"
    using first by blast
  have c2: "(\<forall>ta w1 e w2. get_ticket rt a w = (Inr ta, w1) \<and> get_ticket rt b w1 = (Inl e, w2) \<longrightarrow>
       add_parent rt a b w = (Inl e, w2) \<and> add_blocked_by rt a b w = (Inl e, w2)
     \<and> add_blocking rt a b w = (Inl e, w2) \<and> add_subtask rt a b w = (Inl e, w2)
     \<and> queries_only w w2)"
    using second by blast
  have c3: "(\<forall>ta w1 tb w2 c w3.
         get_ticket rt a w = (Inr ta, w1) \<and> get_ticket rt b w1 = (Inr tb, w2)
         \<and> add_comment rt a (sentence ''Parent'' tb) w2 = (Inr c, w3) \<longrightarrow>
         add_parent rt a b w = get_ticket rt a w3
         \<and> filter is_mutation (sent w3) = filter is_mutation (sent w) @
             [GraphQL AddCommentMutation
                [(''subjectId'', JStr (comment_ticket_id c)), (''body'', JStr (sentence ''Parent'' tb))]])"
    using muts parent by blast
  have c4: "(\<forall>ta w1 tb w2 c w3.
         get_ticket rt a w = (Inr ta, w1) \<and> get_ticket rt b w1 = (Inr tb, w2)
         \<and> add_comment rt a (sentence ''Blocked by'' tb) w2 = (Inr c, w3) \<longrightarrow>
         add_blocked_by rt a b w = get_ticket rt a w3
         \<and> filter is_mutation (sent w3) = filter is_mutation (sent w) @
             [GraphQL AddCommentMutation
                [(''subjectId'', JStr (comment_ticket_id c)),
                 (''body'', JStr (sentence ''Blocked by'' tb))]])"
    using muts blocked by blast
  have c5: "(\<forall>ta w1 tb w2 c w3.
         get_ticket rt a w = (Inr ta, w1) \<and> get_ticket rt b w1 = (Inr tb, w2)
         \<and> add_comment rt a (sentence ''Blocking'' tb) w2 = (Inr c, w3) \<longrightarrow>
         add_blocking rt a b w = get_ticket rt a w3
         \<and> filter is_mutation (sent w3) = filter is_mutation (sent w) @
             [GraphQL AddCommentMutation
                [(''subjectId'', JStr (comment_ticket_id c)),
                 (''body'', JStr (sentence ''Blocking'' tb))]])"
    using muts blocking by blast
  have c6: "(\<forall>ta w1 tb w2 c w3.
         get_ticket rt a w = (Inr ta, w1) \<and> get_ticket rt b w1 = (Inr tb, w2)
         \<and> add_comment rt a (sentence ''Subtask'' tb) w2 = (Inr c, w3) \<longrightarrow>
         add_subtask rt a b w = (Inr (ta\<lparr>subtasks := subtasks ta @ [b]\<rparr>), w3)
         \<and> filter is_mutation (sent w3) = filter is_mutation (sent w) @
             [GraphQL AddCommentMutation
                [(''subjectId'', JStr (comment_ticket_id c)),
                 (''body'', JStr (sentence ''Subtask'' tb))]])"
    using muts subtask by blast
  show ?thesis
    using c1 c2 c3 c4 c5 c6 by (intro conjI)
qed

lemmas relation_defs = add_comment_def parse_comment_def Comment_def sentence_def
  demo_ticket_11_def demo_sent_def demo_issue_query_def comment_mutation_def demo_comment_def
  str_int_def str_nat.simps

lemma demo_fetch_10:
  "get_ticket demo_runtime ''10'' demo_world =
     (Inr (demo_ticket_10 ''2024-05-01T12:00:00+00:00''), demo_sent [demo_issue_query 10])"
  by (simp add: demo_defs eval_defs relation_defs demo_ticket_10_def)

lemma demo_fetch_11:
  "get_ticket demo_runtime ''11'' (demo_sent [demo_issue_query 10]) =
     (Inr demo_ticket_11, demo_sent [demo_issue_query 10, demo_issue_query 11])"
  by (simp add: demo_defs eval_defs relation_defs)

lemma demo_comment_on_10:
  "msg \<in> {''Parent: #11 Add tests'', ''Subtask: #11 Add tests''} \<Longrightarrow>
   add_comment demo_runtime ''10'' msg (demo_sent [demo_issue_query 10, demo_issue_query 11]) =
     (Inr (demo_comment msg),
      demo_sent [demo_issue_query 10, demo_issue_query 11, demo_issue_query 10,
                 comment_mutation ''I_10'' msg])"
  by (auto simp: demo_defs eval_defs relation_defs)

lemma demo_fetch_10_after:
  "get_ticket demo_runtime ''10''
     (demo_sent [demo_issue_query 10, demo_issue_query 11, demo_issue_query 10,
                 comment_mutation ''I_10'' msg]) =
     (Inr (demo_ticket_10 ''2024-05-02T09:30:00+00:00''),
      demo_sent [demo_issue_query 10, demo_issue_query 11, demo_issue_query 10,
                 comment_mutation ''I_10'' msg, demo_issue_query 10])"
  by (simp add: demo_defs eval_defs relation_defs demo_ticket_10_def)

text \<open>
  Issues 10 and 11 of the concrete backend: \<^verbatim>\<open>add_parent\<close> returns the ticket as
  fetched after the comment \<open>Parent: #11 Add tests\<close>; \<^verbatim>\<open>add_subtask\<close> posts
  \<open>Subtask: #11 Add tests\<close> and returns the ticket as fetched before it, with the
  subtask \<open>11\<close>.
\<close>

theorem relations_post_one_comment_witness:
  "sentence ''Parent'' demo_ticket_11 = ''Parent: #11 Add tests''
   \<and> sentence ''Subtask'' demo_ticket_11 = ''Subtask: #11 Add tests''
   \<and> add_parent demo_runtime ''10'' ''11'' demo_world =
       (Inr (demo_ticket_10 ''2024-05-02T09:30:00+00:00''),
        demo_sent [demo_issue_query 10, demo_issue_query 11, demo_issue_query 10,
                   comment_mutation ''I_10'' ''Parent: #11 Add tests'', demo_issue_query 10])
   \<and> add_subtask demo_runtime ''10'' ''11'' demo_world =
       (Inr ((demo_ticket_10 ''2024-05-01T12:00:00+00:00'')\<lparr>subtasks := [''11'']\<rparr>),
        demo_sent [demo_issue_query 10, demo_issue_query 11, demo_issue_query 10,
                   comment_mutation ''I_10'' ''Subtask: #11 Add tests''])"
proof -
  have p: "sentence ''Parent'' demo_ticket_11 = ''Parent: #11 Add tests''"
    and s: "sentence ''Subtask'' demo_ticket_11 = ''Subtask: #11 Add tests''"
    by (simp_all add: relation_defs)
  have cp: "add_comment demo_runtime ''10'' (sentence ''Parent'' demo_ticket_11)
              (demo_sent [demo_issue_query 10, demo_issue_query 11]) =
            (Inr (demo_comment ''Parent: #11 Add tests''),
             demo_sent [demo_issue_query 10, demo_issue_query 11, demo_issue_query 10,
                        comment_mutation ''I_10'' ''Parent: #11 Add tests''])"
    unfolding p by (rule demo_comment_on_10) simp
  have cs: "add_comment demo_runtime ''10'' (sentence ''Subtask'' demo_ticket_11)
              (demo_sent [demo_issue_query 10, demo_issue_query 11]) =
            (Inr (demo_comment ''Subtask: #11 Add tests''),
             demo_sent [demo_issue_query 10, demo_issue_query 11, demo_issue_query 10,
                        comment_mutation ''I_10'' ''Subtask: #11 Add tests''])"
    unfolding s by (rule demo_comment_on_10) simp
  note rel = relations_post_one_comment [of demo_runtime "''10''" demo_world "''11''"]
  have hp: "get_ticket demo_runtime ''10'' demo_world =
              (Inr (demo_ticket_10 ''2024-05-01T12:00:00+00:00''), demo_sent [demo_issue_query 10])
          \<and> get_ticket demo_runtime ''11'' (demo_sent [demo_issue_query 10]) =
              (Inr demo_ticket_11, demo_sent [demo_issue_query 10, demo_issue_query 11])
          \<and> add_comment demo_runtime ''10'' (sentence ''Parent'' demo_ticket_11)
              (demo_sent [demo_issue_query 10, demo_issue_query 11]) =
            (Inr (demo_comment ''Parent: #11 Add tests''),
             demo_sent [demo_issue_query 10, demo_issue_query 11, demo_issue_query 10,
                        comment_mutation ''I_10'' ''Parent: #11 Add tests''])"
    by (intro conjI) (rule demo_fetch_10, rule demo_fetch_11, rule cp)
  have hs: "get_ticket demo_runtime ''10'' demo_world =
              (Inr (demo_ticket_10 ''2024-05-01T12:00:00+00:00''), demo_sent [demo_issue_query 10])
          \<and> get_ticket demo_runtime ''11'' (demo_sent [demo_issue_query 10]) =
              (Inr demo_ticket_11, demo_sent [demo_issue_query 10, demo_issue_query 11])
          \<and> add_comment demo_runtime ''10'' (sentence ''Subtask'' demo_ticket_11)
              (demo_sent [demo_issue_query 10, demo_issue_query 11]) =
            (Inr (demo_comment ''Subtask: #11 Add tests''),
             demo_sent [demo_issue_query 10, demo_issue_query 11, demo_issue_query 10,
                        comment_mutation ''I_10'' ''Subtask: #11 Add tests''])"
    by (intro conjI) (rule demo_fetch_10, rule demo_fetch_11, rule cs)
  from rel [THEN conjunct2, THEN conjunct2, THEN conjunct1, rule_format, OF hp]
  have "add_parent demo_runtime ''10'' ''11'' demo_world =
          get_ticket demo_runtime ''10''
            (demo_sent [demo_issue_query 10, demo_issue_query 11, demo_issue_query 10,
                        comment_mutation ''I_10'' ''Parent: #11 Add tests''])"
    by (rule conjunct1)
  moreover
  from rel [THEN conjunct2, THEN conjunct2, THEN conjunct2, THEN conjunct2, THEN conjunct2,
            rule_format, OF hs]
  have "add_subtask demo_runtime ''10'' ''11'' demo_world =
       (Inr ((demo_ticket_10 ''2024-05-01T12:00:00+00:00'')
               \<lparr>subtasks := subtasks (demo_ticket_10 ''2024-05-01T12:00:00+00:00'') @ [''11'']\<rparr>),
        demo_sent [demo_issue_query 10, demo_issue_query 11, demo_issue_query 10,
                   comment_mutation ''I_10'' ''Subtask: #11 Add tests''])"
    by (rule conjunct1)
  ultimately show ?thesis
    using p s by (simp add: demo_fetch_10_after demo_ticket_10_def)
qed

text \<open>
  Claim C9 as stated fails for \<^verbatim>\<open>add_subtask\<close>: the last request of the call is the
  comment, and the ticket returned is not the one a fetch after the comment gives (here
  that fetch reports a later \<^verbatim>\<open>updatedAt\<close>, and no fetch reports a subtask).
\<close>

theorem add_subtask_refetch_counterexample:
  "add_subtask demo_runtime ''10'' ''11'' demo_world =
     (Inr ((demo_ticket_10 ''2024-05-01T12:00:00+00:00'')\<lparr>subtasks := [''11'']\<rparr>),
      demo_sent [demo_issue_query 10, demo_issue_query 11, demo_issue_query 10,
                 comment_mutation ''I_10'' ''Subtask: #11 Add tests''])
   \<and> get_ticket demo_runtime ''10''
       (demo_sent [demo_issue_query 10, demo_issue_query 11, demo_issue_query 10,
                   comment_mutation ''I_10'' ''Subtask: #11 Add tests'']) =
     (Inr (demo_ticket_10 ''2024-05-02T09:30:00+00:00''),
      demo_sent [demo_issue_query 10, demo_issue_query 11, demo_issue_query 10,
                 comment_mutation ''I_10'' ''Subtask: #11 Add tests'', demo_issue_query 10])
   \<and> (demo_ticket_10 ''2024-05-01T12:00:00+00:00'')\<lparr>subtasks := [''11'']\<rparr>
       \<noteq> demo_ticket_10 ''2024-05-02T09:30:00+00:00''"
proof -
  have "sentence ''Subtask'' demo_ticket_11 = ''Subtask: #11 Add tests''"
    by (simp add: relation_defs)
  then have "add_subtask demo_runtime ''10'' ''11'' demo_world =
     (Inr ((demo_ticket_10 ''2024-05-01T12:00:00+00:00'')\<lparr>subtasks := [''11'']\<rparr>),
      demo_sent [demo_issue_query 10, demo_issue_query 11, demo_issue_query 10,
                 comment_mutation ''I_10'' ''Subtask: #11 Add tests''])"
    using demo_fetch_10 demo_fetch_11 demo_comment_on_10 [of "''Subtask: #11 Add tests''"]
    by (simp add: add_subtask_def io_bind_Inr io_return_def sentence_def demo_ticket_11_def
          demo_ticket_10_def)
  then show ?thesis
    by (simp add: demo_fetch_10_after) (simp add: demo_ticket_10_def)
qed

end
